theory Spec2Isabelle
  imports Complex_Main
begin

text \<open>
  A shallow embedding of the job execution core of IndieLog: the job queue, the job
  runner, the publisher retry loop and fan-out, and the AI provider chain. Promises are
  modelled by their outcome: a value, or the message of the error they reject with;
  a call that ends the process with \<open>process.exit\<close> is a third outcome.
  What a function does to the outside (collaborator calls, publish attempts, waits) is
  returned next to its result as a list of events.
\<close>

section \<open>Job model (jobs/types.ts)\<close>

datatype JobType = daily | weekly | manual

datatype JobStatus = pending | running | completed | failed | cancelled

text \<open>
  Optional fields of the TypeScript interfaces are \<open>option\<close> values. Field names that
  occur in two interfaces carry a short prefix in one of them.
\<close>

record JobConfig =
  jc_type :: JobType
  projectName :: string
  since :: "string option"
  dryRun :: "bool option"
  jc_platforms :: "string list option"

record JobResult =
  success :: bool
  commits :: nat
  summary :: "string option"
  published :: nat
  platforms :: "string list"
  error :: "string option"
  duration :: "int option"

text \<open>
  Dates are milliseconds as \<open>int\<close>. The \<open>AbortController\<close> of a job is modelled by the
  value of its \<open>signal.aborted\<close> flag; \<open>None\<close> is a job without a controller.
\<close>

record Job =
  job_id :: string
  job_type :: JobType
  status :: JobStatus
  config :: JobConfig
  createdAt :: int
  startedAt :: "int option"
  completedAt :: "int option"
  result :: "JobResult option"
  job_error :: "string option"
  cancellationToken :: "bool option"

section \<open>Job queue (class JobQueue)\<close>

record JobQueue =
  jobs :: "string \<rightharpoonup> Job"
  runningJobs :: "string set"
  maxConcurrent :: nat

definition newJobQueue :: "nat \<Rightarrow> JobQueue" where
  "newJobQueue n = \<lparr>jobs = Map.empty, runningJobs = {}, maxConcurrent = n\<rparr>"

text \<open>
  \<open>createJob\<close>: the identifier drawn by \<open>randomUUID()\<close> and the time read by
  \<open>new Date()\<close> are arguments.
\<close>

definition createJob :: "JobQueue \<Rightarrow> string \<Rightarrow> JobType \<Rightarrow> JobConfig \<Rightarrow> int \<Rightarrow> JobQueue \<times> Job" where
  "createJob q uuid ty cfg now =
     (let job = \<lparr>job_id = uuid, job_type = ty, status = pending, config = cfg,
                 createdAt = now, startedAt = None, completedAt = None,
                 result = None, job_error = None, cancellationToken = Some False\<rparr>
      in (q\<lparr>jobs := (jobs q)(uuid \<mapsto> job)\<rparr>, job))"

definition getJob :: "JobQueue \<Rightarrow> string \<Rightarrow> Job option" where
  "getJob q i = jobs q i"

text \<open>
  \<open>updateJobStatus\<close> mutates the job stored under the identifier and, on a terminal
  status, the result object it was given (its \<open>duration\<close>). The model returns the new
  queue together with that result object as it is after the call, because the caller
  keeps a reference to it. \<open>if (result)\<close> holds for every object; \<open>if (error)\<close>
  fails for \<open>undefined\<close> and for the empty string.
\<close>

definition updateJobStatus ::
  "JobQueue \<Rightarrow> string \<Rightarrow> JobStatus \<Rightarrow> JobResult option \<Rightarrow> string option \<Rightarrow> int
     \<Rightarrow> JobQueue \<times> JobResult option" where
  "updateJobStatus q i st res err now =
     (case jobs q i of
        None \<Rightarrow> (q, res)
      | Some job \<Rightarrow>
          let job0 = job\<lparr>status := st\<rparr> in
          if st = running then
            (q\<lparr>jobs := (jobs q)(i \<mapsto> job0\<lparr>startedAt := Some now\<rparr>),
               runningJobs := insert i (runningJobs q)\<rparr>, res)
          else if st = completed \<or> st = failed \<or> st = cancelled then
            let job1 = job0\<lparr>completedAt := Some now\<rparr>;
                res1 = (case res of
                          None \<Rightarrow> None
                        | Some r \<Rightarrow>
                            (case startedAt job1 of
                               None \<Rightarrow> Some r
                             | Some started \<Rightarrow> Some (r\<lparr>duration := Some (now - started)\<rparr>)));
                job2 = (case res1 of None \<Rightarrow> job1 | Some r \<Rightarrow> job1\<lparr>result := Some r\<rparr>);
                job3 = (case err of
                          None \<Rightarrow> job2
                        | Some e \<Rightarrow> if e = [] then job2 else job2\<lparr>job_error := Some e\<rparr>)
            in (q\<lparr>jobs := (jobs q)(i \<mapsto> job3), runningJobs := runningJobs q - {i}\<rparr>, res1)
          else (q\<lparr>jobs := (jobs q)(i \<mapsto> job0)\<rparr>, res))"

text \<open>\<open>cancelJob\<close>: \<open>job.cancellationToken?.abort()\<close> sets the flag when there is a controller.\<close>

definition cancelJob :: "JobQueue \<Rightarrow> string \<Rightarrow> int \<Rightarrow> JobQueue \<times> bool" where
  "cancelJob q i now =
     (case jobs q i of
        None \<Rightarrow> (q, False)
      | Some job \<Rightarrow>
          if status job = completed \<or> status job = failed then (q, False)
          else
            let aborted = job\<lparr>cancellationToken := map_option (\<lambda>_. True) (cancellationToken job)\<rparr>;
                q1 = q\<lparr>jobs := (jobs q)(i \<mapsto> aborted)\<rparr>
            in (fst (updateJobStatus q1 i cancelled None None now), True))"

definition canRunJob :: "JobQueue \<Rightarrow> bool" where
  "canRunJob q = (card (runningJobs q) < maxConcurrent q)"

definition isTerminal :: "JobStatus \<Rightarrow> bool" where
  "isTerminal st = (st = completed \<or> st = failed \<or> st = cancelled)"

definition statusOf :: "JobQueue \<Rightarrow> string \<Rightarrow> JobStatus option" where
  "statusOf q i = map_option status (jobs q i)"

text \<open>The operations on a queue, as data, and a run of a sequence of them.\<close>

datatype QueueOp =
    CreateJob string JobType JobConfig int
  | UpdateJobStatus string JobStatus "JobResult option" "string option" int
  | CancelJob string int

fun applyOp :: "JobQueue \<Rightarrow> QueueOp \<Rightarrow> JobQueue" where
  "applyOp q (CreateJob uuid ty cfg now) = fst (createJob q uuid ty cfg now)"
| "applyOp q (UpdateJobStatus i st res err now) = fst (updateJobStatus q i st res err now)"
| "applyOp q (CancelJob i now) = fst (cancelJob q i now)"

definition runOps :: "JobQueue \<Rightarrow> QueueOp list \<Rightarrow> JobQueue" where
  "runOps q ops = foldl applyOp q ops"

text \<open>
  An operation that cannot take job \<open>i\<close> out of a terminal status by what it asks for:
  a creation under another identifier (\<open>randomUUID\<close> is fresh), a status update that
  addresses another job or asks for a terminal status, any cancellation.
\<close>

fun keepsTerminal :: "string \<Rightarrow> QueueOp \<Rightarrow> bool" where
  "keepsTerminal i (CreateJob uuid ty cfg now) = (uuid \<noteq> i)"
| "keepsTerminal i (UpdateJobStatus j st res err now) = (j \<noteq> i \<or> isTerminal st)"
| "keepsTerminal i (CancelJob j now) = True"

text \<open>Concrete inputs used below.\<close>

definition exConfig :: JobConfig where
  "exConfig = \<lparr>jc_type = manual, projectName = ''demo'', since = None,
                dryRun = Some False, jc_platforms = None\<rparr>"

definition exQueue :: JobQueue where
  "exQueue = fst (createJob (newJobQueue 1) ''j1'' manual exConfig 100)"

definition exResult :: JobResult where
  "exResult = \<lparr>success = True, commits = 0, summary = None, published = 0,
                platforms = [], error = None, duration = None\<rparr>"

definition exDone :: JobQueue where
  "exDone = runOps exQueue
     [UpdateJobStatus ''j1'' running None None 150,
      UpdateJobStatus ''j1'' completed (Some exResult) None 300]"

definition exCancelled :: JobQueue where
  "exCancelled = fst (cancelJob exQueue ''j1'' 200)"

section \<open>Publishers (publisher/base.ts)\<close>

text \<open>
  \<open>maxRetries\<close> is a JavaScript number. The configuration schema asks for
  \<open>z.number().min(0).max(5)\<close> without \<open>int()\<close>, so a fraction such as \<open>1.5\<close> is a valid
  value; it is a \<open>rat\<close> here (the loop only compares it with the attempt counter and
  returns it, which is exact). \<open>retryDelay\<close> is a whole number of milliseconds. The
  \<open>retries\<close> of a result is the attempt index on success and \<open>maxRetries\<close> itself when
  all attempts are used up.
\<close>

record PublisherConfig =
  enabled :: bool
  maxRetries :: "rat option"
  retryDelay :: "nat option"

record PublishResult =
  pr_success :: bool
  pr_platform :: string
  url :: "string option"
  pr_error :: "string option"
  retries :: "rat option"

text \<open>
  A publisher object. The abstract members are fields: \<open>validateConfig\<close> is the outcome
  of the call (\<open>Inl\<close> when it throws), and \<open>publishContent content k\<close> is the outcome of
  the invocation made by attempt \<open>k\<close> of one \<open>publish\<close> call: \<open>Inl\<close> the message of the
  error it throws (\<open>error.message\<close>, or \<open>String(error)\<close> for a value that is not an
  \<open>Error\<close>), \<open>Inr\<close> the URL it returns.
\<close>

record Publisher =
  pub_name :: string
  platform :: string
  pub_config :: PublisherConfig
  validateConfig :: "string + bool"
  publishContent :: "string \<Rightarrow> nat \<Rightarrow> string + string"

text \<open>The constructor of the base class fills in the defaults of the configuration.\<close>

definition baseConfig :: "PublisherConfig \<Rightarrow> PublisherConfig" where
  "baseConfig c =
     c\<lparr>maxRetries := Some (case maxRetries c of None \<Rightarrow> 3 | Some m \<Rightarrow> m),
       retryDelay := Some (case retryDelay c of None \<Rightarrow> 1000 | Some d \<Rightarrow> d)\<rparr>"

text \<open>What one \<open>publish\<close> call does to the outside: attempts and waits, in order.\<close>

datatype PublishEvent = Attempt nat | Sleep nat

definition delayOf :: "Publisher \<Rightarrow> nat" where
  "delayOf p = (case retryDelay (pub_config p) of None \<Rightarrow> 1000 | Some d \<Rightarrow> d)"

text \<open>\<open>const maxRetries = this.config.maxRetries ?? 3\<close>.\<close>

definition maxRetriesOf :: "Publisher \<Rightarrow> rat" where
  "maxRetriesOf p = (case maxRetries (pub_config p) of None \<Rightarrow> 3 | Some m \<Rightarrow> m)"

text \<open>\<open>lastError?.message || 'Unknown error'\<close>: the empty message is falsy.\<close>

definition messageOrUnknown :: "string option \<Rightarrow> string" where
  "messageOrUnknown lastError =
     (case lastError of
        None \<Rightarrow> ''Unknown error''
      | Some m \<Rightarrow> if m = [] then ''Unknown error'' else m)"

text \<open>
  The \<open>for (let attempt = 0; attempt <= maxRetries; attempt++)\<close> loop of \<open>publish\<close>,
  entered at \<open>attempt\<close> with the current \<open>lastError\<close>, together with the return after
  the loop.
\<close>

function retryLoop ::
  "Publisher \<Rightarrow> string \<Rightarrow> rat \<Rightarrow> nat \<Rightarrow> string option \<Rightarrow> PublishResult \<times> PublishEvent list" where
  "retryLoop p content maxR attempt lastError =
     (if of_nat attempt \<le> maxR then
        (case publishContent p content attempt of
           Inr u \<Rightarrow>
             (\<lparr>pr_success = True, pr_platform = platform p, url = Some u,
               pr_error = None, retries = Some (of_nat attempt)\<rparr>, [Attempt attempt])
         | Inl msg \<Rightarrow>
             let waits = (if of_nat attempt < maxR then [Sleep (delayOf p * (attempt + 1))] else []);
                 rest = retryLoop p content maxR (attempt + 1) (Some msg)
             in (fst rest, Attempt attempt # waits @ snd rest))
      else
        (\<lparr>pr_success = False, pr_platform = platform p, url = None,
          pr_error = Some (messageOrUnknown lastError), retries = Some maxR\<rparr>, []))"
  by pat_completeness auto
termination
proof (relation "measure (\<lambda>(p, content, maxR, attempt, lastError). nat (\<lfloor>maxR\<rfloor> + 1) - attempt)")
  show "wf (measure (\<lambda>(p, content, maxR, attempt, lastError). nat (\<lfloor>maxR\<rfloor> + 1) - attempt))"
    by simp
next
  fix p :: Publisher and content :: string and maxR :: rat and attempt :: nat
    and lastError :: "string option" and msg :: string and waits :: "PublishEvent list"
  assume "of_nat attempt \<le> maxR"
  then have "int attempt \<le> \<lfloor>maxR\<rfloor>"
    by (simp add: le_floor_iff)
  then show "((p, content, maxR, attempt + 1, Some msg), (p, content, maxR, attempt, lastError))
         \<in> measure (\<lambda>(p, content, maxR, attempt, lastError). nat (\<lfloor>maxR\<rfloor> + 1) - attempt)"
    by simp
qed

declare retryLoop.simps [simp del]

text \<open>\<open>publish\<close>: \<open>Inl\<close> is a rejected promise (only \<open>validateConfig\<close> can throw here).\<close>

definition publish :: "Publisher \<Rightarrow> string \<Rightarrow> (string + PublishResult) \<times> PublishEvent list" where
  "publish p content =
     (if \<not> enabled (pub_config p) then
        (Inr \<lparr>pr_success = False, pr_platform = platform p, url = None,
              pr_error = Some ''Publisher is disabled'', retries = None\<rparr>, [])
      else
        (case validateConfig p of
           Inl e \<Rightarrow> (Inl e, [])
         | Inr valid \<Rightarrow>
             if \<not> valid then
               (Inr \<lparr>pr_success = False, pr_platform = platform p, url = None,
                     pr_error = Some ''Invalid configuration or missing credentials'',
                     retries = None\<rparr>, [])
             else
               let r = retryLoop p content (maxRetriesOf p) 0 None
               in (Inr (fst r), snd r)))"

fun isAttempt :: "PublishEvent \<Rightarrow> bool" where
  "isAttempt (Attempt k) = True"
| "isAttempt (Sleep ms) = False"

definition attempts :: "PublishEvent list \<Rightarrow> nat" where
  "attempts evs = length (filter isAttempt evs)"

text \<open>
  The events of a run whose last attempt is attempt \<open>k\<close>: each earlier attempt is
  followed by its wait, nothing follows the last one.
\<close>

definition backoffTrace :: "nat \<Rightarrow> nat \<Rightarrow> PublishEvent list" where
  "backoffTrace d k = concat (map (\<lambda>j. [Attempt j, Sleep (d * (j + 1))]) [0..<k]) @ [Attempt k]"

text \<open>
  The events of attempts \<open>lo, ..., hi - 1\<close> when each of them fails under \<open>maxR\<close>
  retries and delay \<open>d\<close>: the attempt, then the wait unless it was the last attempt.
\<close>

definition failedAttempts :: "nat \<Rightarrow> rat \<Rightarrow> nat \<Rightarrow> nat \<Rightarrow> PublishEvent list" where
  "failedAttempts d maxR lo hi =
     concat (map (\<lambda>k. Attempt k # (if of_nat k < maxR then [Sleep (d * (k + 1))] else [])) [lo..<hi])"

section \<open>Publisher manager (publisher/manager.ts)\<close>

text \<open>
  The part of \<open>IndieLogConfig\<close> the core reads itself; the \<open>sources\<close> and \<open>ai\<close> sections
  are read only by the collaborators.
\<close>

record PublishersConfig =
  pub_x :: "PublisherConfig option"
  pub_reddit :: "PublisherConfig option"
  pub_bluesky :: "PublisherConfig option"
  pub_devto :: "PublisherConfig option"

record IndieLogConfig =
  cfg_projectName :: string
  publishers :: PublishersConfig

text \<open>
  What a concrete publisher class and its environment supply: whether the constructor
  throws, the outcome of \<open>validateConfig\<close>, and the outcomes of \<open>publishContent\<close>.
\<close>

record Adapter =
  constructorError :: "string option"
  adapterValidate :: "string + bool"
  adapterPublish :: "string \<Rightarrow> nat \<Rightarrow> string + string"

record Adapters =
  adapterX :: Adapter
  adapterReddit :: Adapter
  adapterBluesky :: Adapter

definition mkPublisher :: "string \<Rightarrow> string \<Rightarrow> Adapter \<Rightarrow> PublisherConfig \<Rightarrow> Publisher" where
  "mkPublisher nm plat a c =
     \<lparr>pub_name = nm, platform = plat, pub_config = baseConfig c,
      validateConfig = adapterValidate a, publishContent = adapterPublish a\<rparr>"

definition newPublisher :: "string \<Rightarrow> string \<Rightarrow> Adapter \<Rightarrow> PublisherConfig \<Rightarrow> string + Publisher" where
  "newPublisher nm plat a c =
     (case constructorError a of
        Some e \<Rightarrow> Inl e
      | None \<Rightarrow> Inr (mkPublisher nm plat a c))"

text \<open>
  One block of \<open>loadPublishers\<close>: \<open>if (publishers.x?.enabled) { try { ... } catch { } }\<close>.
\<close>

definition loadOne :: "string \<Rightarrow> string \<Rightarrow> Adapter \<Rightarrow> PublisherConfig option \<Rightarrow> Publisher list" where
  "loadOne nm plat a copt =
     (case copt of
        None \<Rightarrow> []
      | Some c \<Rightarrow>
          if enabled c then
            (case newPublisher nm plat a c of
               Inl e \<Rightarrow> []
             | Inr p \<Rightarrow>
                 (case validateConfig p of
                    Inl e \<Rightarrow> []
                  | Inr valid \<Rightarrow> if valid then [p] else []))
          else [])"

definition loadPublishers :: "Adapters \<Rightarrow> IndieLogConfig \<Rightarrow> Publisher list" where
  "loadPublishers ads cfg =
     loadOne ''X Publisher'' ''X'' (adapterX ads) (pub_x (publishers cfg))
     @ loadOne ''Reddit Publisher'' ''Reddit'' (adapterReddit ads) (pub_reddit (publishers cfg))
     @ loadOne ''Bluesky Publisher'' ''Bluesky'' (adapterBluesky ads) (pub_bluesky (publishers cfg))"

text \<open>
  \<open>publishAll\<close>: every publisher of the manager is asked, a rejection is turned into a
  failed result. The publishers run interleaved, so the events are kept per publisher.
\<close>

definition publishOne :: "string \<Rightarrow> Publisher \<Rightarrow> PublishResult \<times> PublishEvent list" where
  "publishOne content p =
     (case publish p content of
        (Inl e, evs) \<Rightarrow>
          (\<lparr>pr_success = False, pr_platform = platform p, url = None,
            pr_error = Some e, retries = None\<rparr>, evs)
      | (Inr r, evs) \<Rightarrow> (r, evs))"

definition publishAll :: "Publisher list \<Rightarrow> string \<Rightarrow> (PublishResult \<times> PublishEvent list) list" where
  "publishAll pubs content = (if length pubs = 0 then [] else map (publishOne content) pubs)"

text \<open>Whether a platform ends up in the manager's list of publishers.\<close>

definition loads :: "Adapter \<Rightarrow> PublisherConfig option \<Rightarrow> bool" where
  "loads a copt =
     (case copt of
        None \<Rightarrow> False
      | Some c \<Rightarrow> enabled c \<and> constructorError a = None \<and> adapterValidate a = Inr True)"

section \<open>Job runner (class JobRunner)\<close>

record Commit =
  commit_hash :: string
  commit_message :: string
  commit_author :: string
  commit_date :: string

text \<open>
  The outcome of a collaborator call: it returns, it throws (the text that
  \<open>error instanceof Error ? error.message : String(error)\<close> makes of the thrown value),
  or it ends the process with \<open>process.exit(1)\<close>.
\<close>

datatype 'a Outcome = Returns 'a | Throws string | Exits

text \<open>
  The collaborators of \<open>executeJob\<close> and the rest of its environment:
  \<^item> \<open>loadConfig\<close> is \<open>ConfigLoader.load(configPath)\<close>. It returns the configuration or
    ends the process: a missing file, a syntax error and a validation error all end in
    \<open>process.exit(1)\<close>, and nothing is thrown to the caller. \<open>None\<close> is the exit.
  \<^item> \<open>fetchCommits\<close> is \<open>new GitFetcher(config).fetchCommits(since)\<close>. The method ends
    the process when the directory is no repository and on every error it catches;
    \<open>Throws\<close> is an error of the constructor call, which is made in the same \<open>try\<close>.
  \<^item> \<open>generateSummary\<close> is \<open>new AISummarizer(config).generateSummary(commits)\<close>. The
    constructor ends the process when the API key is missing and throws for an unknown
    provider; the method throws the provider's error again.
  \<^item> \<open>adapters\<close> are the publisher classes the manager instantiates;
  \<^item> \<open>signalAborted k\<close> is the value of \<open>signal.aborted\<close> of the job's controller when
    it is read for the \<open>k\<close>-th time (0: after the configuration is loaded, 1: after the
    fetch, 2: after the generation, 3: in the \<open>catch\<close> block); other code may abort the
    controller while \<open>executeJob\<close> awaits a collaborator;
  \<^item> \<open>clock k\<close> is the time \<open>new Date()\<close> gives in the \<open>k\<close>-th status update.
\<close>

record Env =
  loadConfig :: "string option \<Rightarrow> IndieLogConfig option"
  fetchCommits :: "IndieLogConfig \<Rightarrow> string option \<Rightarrow> Commit list Outcome"
  generateSummary :: "IndieLogConfig \<Rightarrow> Commit list \<Rightarrow> string Outcome"
  adapters :: Adapters
  signalAborted :: "nat \<Rightarrow> bool"
  clock :: "nat \<Rightarrow> int"

text \<open>The collaborator calls a run makes, in order.\<close>

datatype Call =
    LoadConfig "string option"
  | FetchCommits "string option"
  | GenerateSummary "Commit list"
  | PublishAll string "(string \<times> PublishEvent list) list"

fun isPublishAll :: "Call \<Rightarrow> bool" where
  "isPublishAll (PublishAll text evs) = True"
| "isPublishAll other = False"

fun isGenerateSummary :: "Call \<Rightarrow> bool" where
  "isGenerateSummary (GenerateSummary cs) = True"
| "isGenerateSummary other = False"

text \<open>\<open>String.prototype.includes\<close>.\<close>

fun includesText :: "string \<Rightarrow> string \<Rightarrow> bool" where
  "includesText [] sub = (sub = [])"
| "includesText (ch # rest) sub = (take (length sub) (ch # rest) = sub \<or> includesText rest sub)"

text \<open>\<open>getSinceForJobType\<close>: \<open>if (customSince)\<close> fails for the empty string too.\<close>

definition getSinceForJobType :: "JobType \<Rightarrow> string option \<Rightarrow> string option" where
  "getSinceForJobType ty customSince =
     (let byType = (case ty of daily \<Rightarrow> Some ''today'' | weekly \<Rightarrow> Some ''7 days ago'' | manual \<Rightarrow> None)
      in case customSince of
           None \<Rightarrow> byType
         | Some s \<Rightarrow> if s = [] then byType else Some s)"

text \<open>\<open>job.cancellationToken?.signal.aborted\<close>, read for the \<open>k\<close>-th time.\<close>

definition aborted :: "Env \<Rightarrow> Job \<Rightarrow> nat \<Rightarrow> bool" where
  "aborted env job k = (case cancellationToken job of None \<Rightarrow> False | Some flag \<Rightarrow> signalAborted env k)"

definition emptyResult :: JobResult where
  "emptyResult = \<lparr>success = True, commits = 0, summary = None, published = 0,
                   platforms = [], error = None, duration = None\<rparr>"

text \<open>
  \<open>updateJobStatus(job.id, 'completed', result); return result\<close>: the object returned is
  the one the queue has just written the duration into.
\<close>

definition complete :: "Env \<Rightarrow> JobQueue \<Rightarrow> Job \<Rightarrow> JobResult \<Rightarrow> JobQueue \<times> JobResult" where
  "complete env q job res =
     (let upd = updateJobStatus q (job_id job) completed (Some res) None (clock env 1)
      in (fst upd, (case snd upd of None \<Rightarrow> res | Some r \<Rightarrow> r)))"

text \<open>
  The \<open>try\<close> block of \<open>executeJob\<close>: \<open>Returns\<close> carries the queue and the result of a
  run that completes, \<open>Throws\<close> the message of the error that reaches the \<open>catch\<close>
  block, and \<open>Exits\<close> says that a collaborator ended the process.
\<close>

definition tryBlock ::
  "Env \<Rightarrow> JobQueue \<Rightarrow> Job \<Rightarrow> string option \<Rightarrow> (JobQueue \<times> JobResult) Outcome \<times> Call list" where
  "tryBlock env q job configPath =
     (case loadConfig env configPath of
        None \<Rightarrow> (Exits, [LoadConfig configPath])
      | Some cfg \<Rightarrow>
          if aborted env job 0 then (Throws ''Job was cancelled'', [LoadConfig configPath])
          else
            let sinceArg = getSinceForJobType (job_type job) (since (config job));
                calls1 = [LoadConfig configPath, FetchCommits sinceArg]
            in (case fetchCommits env cfg sinceArg of
                  Exits \<Rightarrow> (Exits, calls1)
                | Throws e \<Rightarrow> (Throws e, calls1)
                | Returns cs \<Rightarrow>
                    if aborted env job 1 then (Throws ''Job was cancelled'', calls1)
                    else if length cs = 0 then (Returns (complete env q job emptyResult), calls1)
                    else
                      let calls2 = calls1 @ [GenerateSummary cs]
                      in (case generateSummary env cfg cs of
                            Exits \<Rightarrow> (Exits, calls2)
                          | Throws e \<Rightarrow> (Throws e, calls2)
                          | Returns text \<Rightarrow>
                              if aborted env job 2 then (Throws ''Job was cancelled'', calls2)
                              else
                                let results =
                                      (if dryRun (config job) \<noteq> Some True
                                       then Some (publishAll (loadPublishers (adapters env) cfg) text)
                                       else None);
                                    publishedPlatforms =
                                      (case results of
                                         None \<Rightarrow> []
                                       | Some rs \<Rightarrow> map (\<lambda>r. pr_platform (fst r)) rs);
                                    calls3 =
                                      (case results of
                                         None \<Rightarrow> calls2
                                       | Some rs \<Rightarrow>
                                           calls2 @ [PublishAll text
                                                       (map (\<lambda>r. (pr_platform (fst r), snd r)) rs)]);
                                    res = \<lparr>success = True, commits = length cs, summary = Some text,
                                           published = length publishedPlatforms,
                                           platforms = publishedPlatforms, error = None,
                                           duration = None\<rparr>
                                in (Returns (complete env q job res), calls3))))"

definition failureResult :: "string \<Rightarrow> JobResult" where
  "failureResult errorMessage =
     \<lparr>success = False, commits = 0, summary = None, published = 0, platforms = [],
      error = Some errorMessage, duration = None\<rparr>"

text \<open>
  \<open>executeJob\<close> returns the queue after the run, the \<open>JobResult\<close> it resolves with, and
  the collaborator calls it made. When a collaborator ends the process, the promise
  never settles: the result is \<open>None\<close> and the queue is the one of that moment, with
  the job still \<open>running\<close>.
\<close>

definition executeJob ::
  "Env \<Rightarrow> JobQueue \<Rightarrow> Job \<Rightarrow> string option \<Rightarrow> JobQueue \<times> JobResult option \<times> Call list" where
  "executeJob env q job configPath =
     (let q1 = fst (updateJobStatus q (job_id job) running None None (clock env 0))
      in (case tryBlock env q1 job configPath of
            (Returns finished, calls) \<Rightarrow> (fst finished, Some (snd finished), calls)
          | (Throws errorMessage, calls) \<Rightarrow>
              let q2 = (if includesText errorMessage ''cancelled'' \<or> aborted env job 3
                        then fst (updateJobStatus q1 (job_id job) cancelled None
                                    (Some errorMessage) (clock env 1))
                        else fst (updateJobStatus q1 (job_id job) failed None
                                    (Some errorMessage) (clock env 1)))
              in (q2, Some (failureResult errorMessage), calls)
          | (Exits, calls) \<Rightarrow> (q1, None, calls)))"

text \<open>The successful results among those of a fan-out.\<close>

definition succeededPlatforms :: "(PublishResult \<times> PublishEvent list) list \<Rightarrow> string list" where
  "succeededPlatforms rs = map (\<lambda>r. pr_platform (fst r)) (filter (\<lambda>r. pr_success (fst r)) rs)"

section \<open>AI provider chain (class AIProviderLoader)\<close>

record AIResponse =
  ai_content :: string
  ai_usage :: "(nat \<times> nat \<times> nat) option"
  ai_model :: string
  ai_provider :: string

record FileChange =
  fc_path :: string
  fc_type :: string
  insertions :: nat
  deletions :: nat

record DevlogContext =
  dc_commits :: "Commit list"
  dc_fileChanges :: "FileChange list option"
  dc_projectName :: "string option"
  dc_style :: "string option"
  dc_platform :: "string option"

text \<open>
  A provider: \<open>ai_generateDevlog\<close> is the outcome of its \<open>generateDevlog\<close>, \<open>Inl\<close> the
  message of the error it throws.
\<close>

record AIProvider =
  ai_name :: string
  isConfigured :: bool
  ai_generateDevlog :: "DevlogContext \<Rightarrow> string + AIResponse"

record AIProviderLoader =
  primaryProvider :: AIProvider
  fallbackProviders :: "AIProvider list"

text \<open>The loader as its constructor leaves it, given the primary provider it has loaded.\<close>

definition newLoader :: "AIProvider \<Rightarrow> AIProviderLoader" where
  "newLoader primary = \<lparr>primaryProvider = primary, fallbackProviders = []\<rparr>"

definition addFallback :: "AIProviderLoader \<Rightarrow> AIProvider \<Rightarrow> AIProviderLoader" where
  "addFallback loader p =
     (if isConfigured p then loader\<lparr>fallbackProviders := fallbackProviders loader @ [p]\<rparr>
      else loader)"

text \<open>Which provider a call went to: the primary, or the fallback at an index of the list.\<close>

datatype Invocation = Primary | Fallback nat

text \<open>The \<open>for (const fallback of this.fallbackProviders)\<close> loop, entered at index \<open>i\<close>.\<close>

fun tryFallbacks :: "AIProvider list \<Rightarrow> DevlogContext \<Rightarrow> nat \<Rightarrow> AIResponse option \<times> Invocation list" where
  "tryFallbacks [] ctx i = (None, [])"
| "tryFallbacks (f # fs) ctx i =
     (case ai_generateDevlog f ctx of
        Inr r \<Rightarrow> (Some r, [Fallback i])
      | Inl fallbackError \<Rightarrow>
          let rest = tryFallbacks fs ctx (i + 1) in (fst rest, Fallback i # snd rest))"

definition generateDevlog ::
  "AIProviderLoader \<Rightarrow> DevlogContext \<Rightarrow> (string + AIResponse) \<times> Invocation list" where
  "generateDevlog loader ctx =
     (case ai_generateDevlog (primaryProvider loader) ctx of
        Inr r \<Rightarrow> (Inr r, [Primary])
      | Inl e \<Rightarrow>
          (case tryFallbacks (fallbackProviders loader) ctx 0 of
             (Some r, calls) \<Rightarrow> (Inr r, Primary # calls)
           | (None, calls) \<Rightarrow>
               (Inl (''All AI providers failed. Last error: '' @ e), Primary # calls)))"

text \<open>Concrete publishers and configurations used below.\<close>

definition exAdapterOk :: Adapter where
  "exAdapterOk = \<lparr>constructorError = None, adapterValidate = Inr True,
                   adapterPublish = (\<lambda>content k. Inr ''https://example.org/post/1'')\<rparr>"

definition exAdapterFail :: Adapter where
  "exAdapterFail = \<lparr>constructorError = None, adapterValidate = Inr True,
                     adapterPublish = (\<lambda>content k. Inl ''boom'')\<rparr>"

definition exAdapterFlaky :: Adapter where
  "exAdapterFlaky = \<lparr>constructorError = None, adapterValidate = Inr True,
                      adapterPublish = (\<lambda>content k. if k < 2 then Inl ''timeout''
                                                    else Inr ''https://example.org/post/2'')\<rparr>"

definition exAdapterSilent :: Adapter where
  "exAdapterSilent = \<lparr>constructorError = None, adapterValidate = Inr True,
                       adapterPublish = (\<lambda>content k. Inl [])\<rparr>"

definition exOn :: "rat option \<Rightarrow> PublisherConfig" where
  "exOn mr = \<lparr>enabled = True, maxRetries = mr, retryDelay = None\<rparr>"

definition exOff :: PublisherConfig where
  "exOff = \<lparr>enabled = False, maxRetries = None, retryDelay = None\<rparr>"

definition exFlaky :: Publisher where
  "exFlaky = mkPublisher ''X Publisher'' ''X'' exAdapterFlaky (exOn None)"

definition exAlwaysFail :: Publisher where
  "exAlwaysFail = mkPublisher ''X Publisher'' ''X'' exAdapterFail (exOn (Some 3))"

definition exSilent :: Publisher where
  "exSilent = mkPublisher ''X Publisher'' ''X'' exAdapterSilent (exOn (Some 0))"

definition exBare :: Publisher where
  "exBare = \<lparr>pub_name = ''X Publisher'', platform = ''X'', pub_config = exOn None,
              validateConfig = Inr True, publishContent = adapterPublish exAdapterFlaky\<rparr>"

definition exOnce :: Publisher where
  "exOnce = mkPublisher ''X Publisher'' ''X'' exAdapterFail (exOn (Some 1))"

definition exFractional :: Publisher where
  "exFractional = mkPublisher ''X Publisher'' ''X'' exAdapterFail (exOn (Some (3 / 2)))"

definition exAdapterThrowing :: Adapter where
  "exAdapterThrowing = \<lparr>constructorError = None, adapterValidate = Inl ''keychain locked'',
                         adapterPublish = (\<lambda>content k. Inr ''https://example.org/post/1'')\<rparr>"

definition exThrowing :: Publisher where
  "exThrowing = mkPublisher ''Reddit Publisher'' ''Reddit'' exAdapterThrowing (exOn None)"

definition exDisabled :: Publisher where
  "exDisabled = mkPublisher ''X Publisher'' ''X'' exAdapterOk exOff"

definition exThree :: IndieLogConfig where
  "exThree = \<lparr>cfg_projectName = ''demo'',
               publishers = \<lparr>pub_x = Some exOff, pub_reddit = Some (exOn (Some 1)),
                              pub_bluesky = Some (exOn None), pub_devto = None\<rparr>\<rparr>"

definition exThreeAdapters :: Adapters where
  "exThreeAdapters = \<lparr>adapterX = exAdapterOk, adapterReddit = exAdapterFail,
                       adapterBluesky = exAdapterOk\<rparr>"

text \<open>Concrete runs used below.\<close>

definition exCommits :: "Commit list" where
  "exCommits =
     [\<lparr>commit_hash = ''a1b2c3d'', commit_message = ''Add job queue'',
       commit_author = ''dev'', commit_date = ''2025-11-13''\<rparr>,
      \<lparr>commit_hash = ''b2c3d4e'', commit_message = ''Add retry loop'',
       commit_author = ''dev'', commit_date = ''2025-11-13''\<rparr>,
      \<lparr>commit_hash = ''c3d4e5f'', commit_message = ''Fix typo'',
       commit_author = ''dev'', commit_date = ''2025-11-13''\<rparr>]"

definition exXOnly :: IndieLogConfig where
  "exXOnly = \<lparr>cfg_projectName = ''demo'',
               publishers = \<lparr>pub_x = Some (exOn (Some 0)), pub_reddit = Some exOff,
                              pub_bluesky = None, pub_devto = None\<rparr>\<rparr>"

definition exEnv :: "Adapter \<Rightarrow> Commit list \<Rightarrow> Env" where
  "exEnv xAdapter cs =
     \<lparr>loadConfig = (\<lambda>path. Some exXOnly),
      fetchCommits = (\<lambda>cfg s. Returns cs),
      generateSummary = (\<lambda>cfg commitList. Returns ''Shipped the job queue''),
      adapters = \<lparr>adapterX = xAdapter, adapterReddit = exAdapterOk, adapterBluesky = exAdapterOk\<rparr>,
      signalAborted = (\<lambda>k. False),
      clock = (\<lambda>k. 1000 + int k)\<rparr>"

definition exJob :: Job where
  "exJob = snd (createJob (newJobQueue 1) ''j1'' manual exConfig 100)"

definition exDryConfig :: JobConfig where
  "exDryConfig = exConfig\<lparr>dryRun := Some True\<rparr>"

definition exDryQueue :: JobQueue where
  "exDryQueue = fst (createJob (newJobQueue 1) ''j1'' manual exDryConfig 100)"

definition exDryJob :: Job where
  "exDryJob = snd (createJob (newJobQueue 1) ''j1'' manual exDryConfig 100)"



definition exEnvCancelledEmpty :: Env where
  "exEnvCancelledEmpty = (exEnv exAdapterOk [])\<lparr>signalAborted := (\<lambda>k. 0 < k)\<rparr>"


text \<open>Concrete providers used below.\<close>

definition exResponse :: "string \<Rightarrow> AIResponse" where
  "exResponse nm = \<lparr>ai_content = ''Shipped the job queue'', ai_usage = None,
                     ai_model = ''demo-model'', ai_provider = nm\<rparr>"

definition exContext :: DevlogContext where
  "exContext = \<lparr>dc_commits = exCommits, dc_fileChanges = None, dc_projectName = Some ''demo'',
                 dc_style = Some ''friendly'', dc_platform = Some ''X/Twitter''\<rparr>"

definition exPrimary :: AIProvider where
  "exPrimary = \<lparr>ai_name = ''OpenAI'', isConfigured = True,
                 ai_generateDevlog = (\<lambda>ctx. Inl ''quota exceeded'')\<rparr>"

definition exFallbackA :: AIProvider where
  "exFallbackA = \<lparr>ai_name = ''Claude'', isConfigured = True,
                   ai_generateDevlog = (\<lambda>ctx. Inl ''overloaded'')\<rparr>"

definition exFallbackU :: AIProvider where
  "exFallbackU = \<lparr>ai_name = ''Spare'', isConfigured = False,
                   ai_generateDevlog = (\<lambda>ctx. Inr (exResponse ''Spare''))\<rparr>"

definition exFallbackB :: AIProvider where
  "exFallbackB = \<lparr>ai_name = ''Llama'', isConfigured = True,
                   ai_generateDevlog = (\<lambda>ctx. Inr (exResponse ''Llama''))\<rparr>"

definition exLoader :: AIProviderLoader where
  "exLoader = foldl addFallback (newLoader exPrimary) [exFallbackA, exFallbackU, exFallbackB]"

definition exLoaderAllFail :: AIProviderLoader where
  "exLoaderAllFail = foldl addFallback (newLoader exPrimary) [exFallbackA, exFallbackU]"

section \<open>Properties of the job queue\<close>

lemmas ex_queue_defs =
  exQueue_def exConfig_def newJobQueue_def createJob_def updateJobStatus_def statusOf_def Let_def

lemma updateJobStatus_status:
  "jobs q i = Some job \<Longrightarrow> statusOf (fst (updateJobStatus q i st res err now)) i = Some st"
  by (cases st) (auto simp: updateJobStatus_def statusOf_def Let_def split: option.splits)

lemma updateJobStatus_other:
  "j \<noteq> i \<Longrightarrow> jobs (fst (updateJobStatus q i st res err now)) j = jobs q j"
  by (cases st) (auto simp: updateJobStatus_def Let_def split: option.splits)

lemma updateJobStatus_unknown:
  "jobs q i = None \<Longrightarrow> updateJobStatus q i st res err now = (q, res)"
  by (simp add: updateJobStatus_def)

text \<open>
  C3, as the code has it. \<open>cancelJob\<close> returns \<open>false\<close> and leaves the queue as it is
  when the identifier is unknown or the job is \<open>completed\<close> or \<open>failed\<close>. In every other
  status (\<open>pending\<close>, \<open>running\<close>, and also \<open>cancelled\<close>) it aborts the job's controller
  when there is one, sets the status to \<open>cancelled\<close> and returns \<open>true\<close>.
\<close>

theorem cancelJob_cases:
  "(jobs q i = None \<longrightarrow> cancelJob q i now = (q, False)) \<and>
   (\<forall>job. jobs q i = Some job \<and> (status job = completed \<or> status job = failed)
      \<longrightarrow> cancelJob q i now = (q, False)) \<and>
   (\<forall>job. jobs q i = Some job \<and> status job \<noteq> completed \<and> status job \<noteq> failed
      \<longrightarrow> snd (cancelJob q i now) = True
          \<and> statusOf (fst (cancelJob q i now)) i = Some cancelled
          \<and> map_option cancellationToken (jobs (fst (cancelJob q i now)) i)
              = Some (map_option (\<lambda>_. True) (cancellationToken job)))"
  by (auto simp: cancelJob_def updateJobStatus_def statusOf_def Let_def split: option.splits)

theorem cancelJob_cases_witness:
  "cancelJob exQueue ''unknown'' 200 = (exQueue, False) \<and>
   cancelJob exDone ''j1'' 400 = (exDone, False) \<and>
   snd (cancelJob exQueue ''j1'' 200) = True \<and>
   statusOf (fst (cancelJob exQueue ''j1'' 200)) ''j1'' = Some cancelled \<and>
   map_option cancellationToken (jobs (fst (cancelJob exQueue ''j1'' 200)) ''j1'') = Some (Some True)"
proof -
  have unknown: "jobs exQueue ''unknown'' = None"
    by (simp add: ex_queue_defs)
  have compl: "\<exists>job. jobs exDone ''j1'' = Some job \<and> status job = completed"
    by (simp add: exDone_def runOps_def ex_queue_defs)
  have fresh: "\<exists>job. jobs exQueue ''j1'' = Some job \<and> status job = pending
                 \<and> cancellationToken job = Some False"
    by (simp add: ex_queue_defs)
  from unknown cancelJob_cases [of exQueue "''unknown''" 200]
  have a: "cancelJob exQueue ''unknown'' 200 = (exQueue, False)" by blast
  from compl cancelJob_cases [of exDone "''j1''" 400]
  have b: "cancelJob exDone ''j1'' 400 = (exDone, False)" by blast
  from fresh cancelJob_cases [of exQueue "''j1''" 200]
  have c: "snd (cancelJob exQueue ''j1'' 200) = True \<and>
           statusOf (fst (cancelJob exQueue ''j1'' 200)) ''j1'' = Some cancelled \<and>
           map_option cancellationToken (jobs (fst (cancelJob exQueue ''j1'' 200)) ''j1'')
             = Some (Some True)"
    by fastforce
  from a b c show ?thesis by blast
qed

text \<open>
  C3 as stated fails for a job that is already \<open>cancelled\<close>: the second cancellation of
  job \<open>j1\<close> returns \<open>true\<close>, not \<open>false\<close>.
\<close>

theorem cancelJob_cancelled_counterexample:
  "statusOf exCancelled ''j1'' = Some cancelled \<and> snd (cancelJob exCancelled ''j1'' 300) = True"
  by (simp add: exCancelled_def cancelJob_def ex_queue_defs)

lemma applyOp_keeps:
  "keepsTerminal i op \<Longrightarrow> statusOf q i = Some st \<Longrightarrow> isTerminal st
    \<Longrightarrow> \<exists>st'. statusOf (applyOp q op) i = Some st' \<and> isTerminal st'"
  by (cases op)
     (auto simp: createJob_def statusOf_def cancelJob_def updateJobStatus_def Let_def
                 isTerminal_def split: option.splits)

text \<open>
  C4, as the code has it. \<open>updateJobStatus\<close> writes the status it is given without
  looking at the current one. What holds: over every sequence of \<open>createJob\<close> (fresh
  identifiers), \<open>cancelJob\<close> and \<open>updateJobStatus\<close> operations in which no
  \<open>updateJobStatus\<close> asks for \<open>pending\<close> or \<open>running\<close> on job \<open>i\<close>, a job \<open>i\<close> that is in
  a terminal status stays in a terminal status.
\<close>

theorem terminal_stays_terminal:
  "statusOf q i = Some st \<Longrightarrow> isTerminal st \<Longrightarrow> \<forall>op \<in> set ops. keepsTerminal i op
     \<Longrightarrow> \<exists>st'. statusOf (runOps q ops) i = Some st' \<and> isTerminal st'"
proof (induction ops arbitrary: q st)
  case Nil
  then show ?case by (simp add: runOps_def)
next
  case (Cons op ops)
  from Cons.prems have "keepsTerminal i op" by simp
  with Cons.prems(1,2) obtain st1 where
    st1: "statusOf (applyOp q op) i = Some st1" "isTerminal st1"
    using applyOp_keeps by blast
  from Cons.prems have "\<forall>op' \<in> set ops. keepsTerminal i op'" by simp
  with Cons.IH [OF st1] have "\<exists>st'. statusOf (runOps (applyOp q op) ops) i = Some st' \<and> isTerminal st'"
    by blast
  then show ?case by (simp add: runOps_def)
qed

theorem terminal_stays_terminal_witness:
  "\<exists>st'. statusOf (runOps exDone
            [CancelJob ''j1'' 400, CreateJob ''j2'' daily exConfig 410,
             UpdateJobStatus ''j1'' failed None (Some ''late'') 420,
             UpdateJobStatus ''j2'' running None None 430]) ''j1'' = Some st'
         \<and> isTerminal st'"
proof -
  have s: "statusOf exDone ''j1'' = Some completed"
    by (simp add: exDone_def runOps_def ex_queue_defs)
  have t: "isTerminal completed"
    by (simp add: isTerminal_def)
  have k: "\<forall>op \<in> set [CancelJob ''j1'' 400, CreateJob ''j2'' daily exConfig 410,
             UpdateJobStatus ''j1'' failed None (Some ''late'') 420,
             UpdateJobStatus ''j2'' running None None 430]. keepsTerminal ''j1'' op"
    by (simp add: isTerminal_def)
  from terminal_stays_terminal [OF s t k] show ?thesis .
qed

text \<open>
  C4 as stated fails: \<open>updateJobStatus(id, 'running')\<close> on a \<open>completed\<close> job makes its
  status \<open>running\<close> again.
\<close>

theorem terminal_reentered_counterexample:
  "statusOf exDone ''j1'' = Some completed \<and>
   statusOf (runOps exDone [UpdateJobStatus ''j1'' running None None 400]) ''j1'' = Some running"
  by (simp add: exDone_def runOps_def ex_queue_defs)

section \<open>Properties of the publisher retry loop\<close>

lemma failedAttempts_step:
  "lo < hi \<Longrightarrow> failedAttempts d maxR lo hi =
     Attempt lo # (if of_nat lo < maxR then [Sleep (d * (lo + 1))] else [])
       @ failedAttempts d maxR (Suc lo) hi"
  by (simp add: failedAttempts_def upt_conv_Cons)

lemma failedAttempts_empty: "hi \<le> lo \<Longrightarrow> failedAttempts d maxR lo hi = []"
  by (simp add: failedAttempts_def)

lemma within_bound: "of_nat attempt \<le> (maxR :: rat) \<Longrightarrow> attempt < nat (\<lfloor>maxR\<rfloor> + 1)"
proof -
  assume "of_nat attempt \<le> maxR"
  then have "int attempt \<le> \<lfloor>maxR\<rfloor>" by (simp add: le_floor_iff)
  then show ?thesis by simp
qed

lemma last_index:
  "of_nat attempt \<le> (maxR :: rat) \<Longrightarrow> \<not> of_nat (attempt + 1) \<le> maxR \<Longrightarrow> nat \<lfloor>maxR\<rfloor> = attempt"
proof -
  assume a: "of_nat attempt \<le> maxR" and b: "\<not> of_nat (attempt + 1) \<le> maxR"
  from a have "int attempt \<le> \<lfloor>maxR\<rfloor>" by (simp add: le_floor_iff)
  moreover from b have "\<not> int (attempt + 1) \<le> \<lfloor>maxR\<rfloor>"
    using le_floor_iff [of "int (attempt + 1)" maxR] by simp
  ultimately show ?thesis by simp
qed

lemma retryLoop_success:
  "attempt \<le> k \<Longrightarrow> of_nat k \<le> maxR \<Longrightarrow>
   (\<forall>j. attempt \<le> j \<and> j < k \<longrightarrow> isl (publishContent p c j)) \<Longrightarrow>
   publishContent p c k = Inr u \<Longrightarrow>
   retryLoop p c maxR attempt lastError =
     (\<lparr>pr_success = True, pr_platform = platform p, url = Some u,
       pr_error = None, retries = Some (of_nat k)\<rparr>,
      failedAttempts (delayOf p) maxR attempt k @ [Attempt k])"
proof (induction p c maxR attempt lastError rule: retryLoop.induct)
  case (1 p content maxR attempt lastError)
  show ?case
  proof (cases "attempt = k")
    case True
    with 1 show ?thesis
      by (subst retryLoop.simps) (simp add: failedAttempts_empty)
  next
    case False
    with "1.prems" have lt: "attempt < k" by simp
    with "1.prems" have "isl (publishContent p content attempt)" by simp
    then obtain msg where msg: "publishContent p content attempt = Inl msg"
      by (cases "publishContent p content attempt") auto
    from lt have "(of_nat attempt :: rat) < of_nat k" by simp
    with "1.prems" have less: "of_nat attempt < maxR" by simp
    then have le: "of_nat attempt \<le> maxR" by simp
    have "retryLoop p content maxR (attempt + 1) (Some msg) =
      (\<lparr>pr_success = True, pr_platform = platform p, url = Some u,
       pr_error = None, retries = Some (of_nat k)\<rparr>,
      failedAttempts (delayOf p) maxR (attempt + 1) k @ [Attempt k])"
      using "1.IH"[OF le msg refl] lt "1.prems" by simp
    with msg le less lt show ?thesis
      by (subst retryLoop.simps) (simp add: failedAttempts_step Let_def)
  qed
qed

lemma retryLoop_exhausted:
  "(\<forall>j. attempt \<le> j \<and> of_nat j \<le> maxR \<longrightarrow> isl (publishContent p c j)) \<Longrightarrow>
   retryLoop p c maxR attempt lastError =
     (\<lparr>pr_success = False, pr_platform = platform p, url = None,
       pr_error = Some (messageOrUnknown
          (if of_nat attempt \<le> maxR then Some (projl (publishContent p c (nat \<lfloor>maxR\<rfloor>)))
           else lastError)),
       retries = Some maxR\<rparr>,
      failedAttempts (delayOf p) maxR attempt (nat (\<lfloor>maxR\<rfloor> + 1)))"
proof (induction p c maxR attempt lastError rule: retryLoop.induct)
  case (1 p content maxR attempt lastError)
  show ?case
  proof (cases "of_nat attempt \<le> maxR")
    case False
    then have "\<not> int attempt \<le> \<lfloor>maxR\<rfloor>" by (simp add: le_floor_iff)
    then have "nat (\<lfloor>maxR\<rfloor> + 1) \<le> attempt" by simp
    with False show ?thesis
      by (subst retryLoop.simps) (simp add: failedAttempts_empty)
  next
    case le: True
    with "1.prems" have "isl (publishContent p content attempt)" by simp
    then obtain msg where msg: "publishContent p content attempt = Inl msg"
      by (cases "publishContent p content attempt") auto
    have rest: "retryLoop p content maxR (attempt + 1) (Some msg) =
      (\<lparr>pr_success = False, pr_platform = platform p, url = None,
       pr_error = Some (messageOrUnknown
          (if of_nat (attempt + 1) \<le> maxR then Some (projl (publishContent p content (nat \<lfloor>maxR\<rfloor>)))
           else Some msg)),
       retries = Some maxR\<rparr>,
      failedAttempts (delayOf p) maxR (attempt + 1) (nat (\<lfloor>maxR\<rfloor> + 1)))"
      using "1.IH"[OF le msg refl] "1.prems" by simp
    have last: "(if of_nat (attempt + 1) \<le> maxR
                 then Some (projl (publishContent p content (nat \<lfloor>maxR\<rfloor>))) else Some msg)
        = Some (projl (publishContent p content (nat \<lfloor>maxR\<rfloor>)))"
      using last_index [OF le] msg by auto
    from rest have rest': "retryLoop p content maxR (Suc attempt) (Some msg) =
      (\<lparr>pr_success = False, pr_platform = platform p, url = None,
       pr_error = Some (messageOrUnknown (Some (projl (publishContent p content (nat \<lfloor>maxR\<rfloor>))))),
       retries = Some maxR\<rparr>,
      failedAttempts (delayOf p) maxR (Suc attempt) (nat (\<lfloor>maxR\<rfloor> + 1)))"
      unfolding last by simp
    from msg le show ?thesis
      by (subst retryLoop.simps)
         (simp add: rest' failedAttempts_step [OF within_bound [OF le]] Let_def)
  qed
qed

lemma attempts_retryLoop_le:
  "attempts (snd (retryLoop p c maxR attempt lastError)) \<le> nat (\<lfloor>maxR\<rfloor> + 1) - attempt"
proof (induction p c maxR attempt lastError rule: retryLoop.induct)
  case (1 p content maxR attempt lastError)
  show ?case
  proof (cases "of_nat attempt \<le> maxR")
    case False
    then show ?thesis
      by (subst retryLoop.simps) (simp add: attempts_def)
  next
    case le: True
    note b = within_bound [OF le]
    show ?thesis
    proof (cases "publishContent p content attempt")
      case (Inr u)
      with le b show ?thesis
        by (subst retryLoop.simps) (simp add: attempts_def)
    next
      case (Inl msg)
      from "1.IH"[OF le Inl refl]
      have "attempts (snd (retryLoop p content maxR (attempt + 1) (Some msg)))
              \<le> nat (\<lfloor>maxR\<rfloor> + 1) - (attempt + 1)" .
      with le Inl b show ?thesis
        by (subst retryLoop.simps) (simp add: attempts_def Let_def)
    qed
  qed
qed

lemma attempts_failedAttempts: "attempts (failedAttempts d maxR lo hi) = hi - lo"
proof -
  have "\<And>xs. attempts (concat (map (\<lambda>k. Attempt k # (if of_nat k < maxR then [Sleep (d * (k + 1))] else [])) xs))
          = length xs"
    subgoal for xs by (induction xs) (auto simp: attempts_def)
    done
  then show ?thesis by (simp add: failedAttempts_def)
qed

lemma backoff_prefix:
  "of_nat hi \<le> maxR \<Longrightarrow> failedAttempts d maxR 0 hi
     = concat (map (\<lambda>j. [Attempt j, Sleep (d * (j + 1))]) [0..<hi])"
proof (induction hi)
  case 0
  then show ?case by (simp add: failedAttempts_def)
next
  case (Suc hi)
  then have "of_nat hi < maxR" "of_nat hi \<le> maxR" by simp_all
  with Suc.IH show ?case by (simp add: failedAttempts_def)
qed

lemma failedAttempts_success:
  "of_nat k \<le> maxR \<Longrightarrow> failedAttempts d maxR 0 k @ [Attempt k] = backoffTrace d k"
  by (simp add: backoff_prefix backoffTrace_def)

lemma failedAttempts_all: "failedAttempts d (of_nat n) 0 (n + 1) = backoffTrace d n"
proof -
  have "failedAttempts d (of_nat n) 0 (Suc n) = failedAttempts d (of_nat n) 0 n @ [Attempt n]"
    by (simp add: failedAttempts_def)
  then show ?thesis by (simp add: failedAttempts_success)
qed

lemma attempts_backoffTrace: "attempts (backoffTrace d k) = k + 1"
  using attempts_failedAttempts [of d "of_nat k" 0 "k + 1"] failedAttempts_all [of d k] by simp

lemma publish_loop:
  "enabled (pub_config p) \<Longrightarrow> validateConfig p = Inr True \<Longrightarrow>
   publish p c = (Inr (fst (retryLoop p c (maxRetriesOf p) 0 None)),
                  snd (retryLoop p c (maxRetriesOf p) 0 None))"
  by (simp add: publish_def Let_def)

lemma whole_bound: "nat (\<lfloor>(of_nat n :: rat)\<rfloor> + 1) = Suc n" "nat \<lfloor>(of_nat n :: rat)\<rfloor> = n"
proof -
  have "nat (int n + 1) = Suc n" by linarith
  then show "nat (\<lfloor>(of_nat n :: rat)\<rfloor> + 1) = Suc n" by simp
  show "nat \<lfloor>(of_nat n :: rat)\<rfloor> = n" by simp
qed

lemma attempts_within: "0 \<le> (m :: rat) \<Longrightarrow> of_nat (nat (\<lfloor>m\<rfloor> + 1)) \<le> m + 1"
proof -
  assume "0 \<le> m"
  then have "0 \<le> \<lfloor>m\<rfloor>" by simp
  then have "(of_nat (nat (\<lfloor>m\<rfloor> + 1)) :: rat) = of_int \<lfloor>m\<rfloor> + 1" by simp
  also have "\<dots> \<le> m + 1" by simp
  finally show ?thesis .
qed


text \<open>
  C6, as the code has it. For an enabled publisher whose \<open>validateConfig\<close> holds, the
  bound of the loop is the configured \<open>maxRetries\<close>, or 3 when none is configured, and
  \<open>publish\<close> invokes \<open>publishContent\<close> at most \<open>maxRetries + 1\<close> times. If attempt \<open>k\<close>
  (counted from 0) is the first that succeeds, the result is \<open>{success: true, retries: k}\<close>
  with the returned URL, after \<open>k + 1\<close> attempts. If \<open>maxRetries\<close> is a whole number and
  all \<open>maxRetries + 1\<close> attempts fail, the result is \<open>{success: false, retries: maxRetries}\<close>
  after exactly \<open>maxRetries + 1\<close> attempts, and its error is the message of the last
  error, or \<open>'Unknown error'\<close> when that message is empty.
\<close>

theorem publish_retry:
  assumes en: "enabled (pub_config p)" and valid: "validateConfig p = Inr True"
  shows "(maxRetries (pub_config p) = None \<longrightarrow> maxRetriesOf p = 3) \<and>
    (\<forall>m. maxRetries (pub_config p) = Some m \<longrightarrow> maxRetriesOf p = m) \<and>
    (0 \<le> maxRetriesOf p \<longrightarrow> of_nat (attempts (snd (publish p c))) \<le> maxRetriesOf p + 1) \<and>
    (\<forall>k u. of_nat k \<le> maxRetriesOf p \<and> (\<forall>j<k. isl (publishContent p c j)) \<and>
           publishContent p c k = Inr u
       \<longrightarrow> fst (publish p c) = Inr \<lparr>pr_success = True, pr_platform = platform p, url = Some u,
                                   pr_error = None, retries = Some (of_nat k)\<rparr>
           \<and> attempts (snd (publish p c)) = k + 1) \<and>
    (\<forall>n m. maxRetriesOf p = of_nat n \<and> (\<forall>j<n. isl (publishContent p c j)) \<and>
           publishContent p c n = Inl m
       \<longrightarrow> fst (publish p c) = Inr \<lparr>pr_success = False, pr_platform = platform p, url = None,
                                   pr_error = Some (if m = [] then ''Unknown error'' else m),
                                   retries = Some (of_nat n)\<rparr>
           \<and> attempts (snd (publish p c)) = n + 1)"
proof (intro conjI allI impI)
  show "maxRetries (pub_config p) = None \<Longrightarrow> maxRetriesOf p = 3"
    by (simp add: maxRetriesOf_def)
next
  fix m show "maxRetries (pub_config p) = Some m \<Longrightarrow> maxRetriesOf p = m"
    by (simp add: maxRetriesOf_def)
next
  assume nonneg: "0 \<le> maxRetriesOf p"
  have "attempts (snd (publish p c)) \<le> nat (\<lfloor>maxRetriesOf p\<rfloor> + 1)"
    using attempts_retryLoop_le [of p c "maxRetriesOf p" 0 None]
    by (simp add: publish_loop [OF en valid])
  then have "(of_nat (attempts (snd (publish p c))) :: rat) \<le> of_nat (nat (\<lfloor>maxRetriesOf p\<rfloor> + 1))"
    by (simp only: of_nat_le_iff)
  also have "\<dots> \<le> maxRetriesOf p + 1"
    by (rule attempts_within [OF nonneg])
  finally show "of_nat (attempts (snd (publish p c))) \<le> maxRetriesOf p + 1" .
next
  fix k u
  assume h: "of_nat k \<le> maxRetriesOf p \<and> (\<forall>j<k. isl (publishContent p c j)) \<and>
             publishContent p c k = Inr u"
  then have loop: "retryLoop p c (maxRetriesOf p) 0 None =
     (\<lparr>pr_success = True, pr_platform = platform p, url = Some u, pr_error = None,
       retries = Some (of_nat k)\<rparr>,
      failedAttempts (delayOf p) (maxRetriesOf p) 0 k @ [Attempt k])"
    by (intro retryLoop_success) auto
  show "fst (publish p c) = Inr \<lparr>pr_success = True, pr_platform = platform p, url = Some u,
                                   pr_error = None, retries = Some (of_nat k)\<rparr>"
    by (simp add: publish_loop [OF en valid] loop)
  from h show "attempts (snd (publish p c)) = k + 1"
    by (simp add: publish_loop [OF en valid] loop failedAttempts_success attempts_backoffTrace)
next
  fix n m
  assume h: "maxRetriesOf p = of_nat n \<and> (\<forall>j<n. isl (publishContent p c j)) \<and>
             publishContent p c n = Inl m"
  then have whole: "maxRetriesOf p = of_nat n" by simp
  from h have "\<forall>j. 0 \<le> j \<and> of_nat j \<le> (of_nat n :: rat) \<longrightarrow> isl (publishContent p c j)"
    by (metis le_neq_implies_less of_nat_le_iff sum.disc(1))
  from retryLoop_exhausted [OF this, of None] h
  have loop: "retryLoop p c (of_nat n) 0 None =
     (\<lparr>pr_success = False, pr_platform = platform p, url = None,
       pr_error = Some (messageOrUnknown (Some m)), retries = Some (of_nat n)\<rparr>,
      failedAttempts (delayOf p) (of_nat n) 0 (Suc n))"
    by (simp only: whole_bound) simp
  show "fst (publish p c) = Inr \<lparr>pr_success = False, pr_platform = platform p, url = None,
                                   pr_error = Some (if m = [] then ''Unknown error'' else m),
                                   retries = Some (of_nat n)\<rparr>"
    by (simp add: publish_loop [OF en valid] whole loop messageOrUnknown_def)
  show "attempts (snd (publish p c)) = n + 1"
    by (simp add: publish_loop [OF en valid] whole loop attempts_failedAttempts)
qed

text \<open>
  For a whole number \<open>maxRetries\<close> the waits are as the comment in the loop says: the
  events of a run that ends with attempt \<open>k\<close> (the first success, or attempt
  \<open>maxRetries\<close> when all fail) are
  \<open>Attempt 0, Sleep (d * 1), ..., Attempt (k - 1), Sleep (d * k), Attempt k\<close>.
\<close>

lemma publish_backoff_whole:
  assumes en: "enabled (pub_config p)" and valid: "validateConfig p = Inr True"
  shows "(retryDelay (pub_config p) = None \<longrightarrow> delayOf p = 1000) \<and>
    (\<forall>d. retryDelay (pub_config p) = Some d \<longrightarrow> delayOf p = d) \<and>
    (\<forall>k u. of_nat k \<le> maxRetriesOf p \<and> (\<forall>j<k. isl (publishContent p c j)) \<and>
           publishContent p c k = Inr u
       \<longrightarrow> snd (publish p c) = backoffTrace (delayOf p) k) \<and>
    (\<forall>n. maxRetriesOf p = of_nat n \<and> (\<forall>j\<le>n. isl (publishContent p c j))
       \<longrightarrow> snd (publish p c) = backoffTrace (delayOf p) n)"
proof (intro conjI allI impI)
  show "retryDelay (pub_config p) = None \<Longrightarrow> delayOf p = 1000"
    by (simp add: delayOf_def)
next
  fix d show "retryDelay (pub_config p) = Some d \<Longrightarrow> delayOf p = d"
    by (simp add: delayOf_def)
next
  fix k u
  assume h: "of_nat k \<le> maxRetriesOf p \<and> (\<forall>j<k. isl (publishContent p c j)) \<and>
             publishContent p c k = Inr u"
  then have "retryLoop p c (maxRetriesOf p) 0 None =
     (\<lparr>pr_success = True, pr_platform = platform p, url = Some u, pr_error = None,
       retries = Some (of_nat k)\<rparr>,
      failedAttempts (delayOf p) (maxRetriesOf p) 0 k @ [Attempt k])"
    by (intro retryLoop_success) auto
  with h show "snd (publish p c) = backoffTrace (delayOf p) k"
    by (simp add: publish_loop [OF en valid] failedAttempts_success)
next
  fix n
  assume h: "maxRetriesOf p = of_nat n \<and> (\<forall>j\<le>n. isl (publishContent p c j))"
  then have "\<forall>j. 0 \<le> j \<and> of_nat j \<le> (of_nat n :: rat) \<longrightarrow> isl (publishContent p c j)" by simp
  from retryLoop_exhausted [OF this, of None] h
  show "snd (publish p c) = backoffTrace (delayOf p) n"
    using failedAttempts_all [of "delayOf p" n]
    by (simp only: whole_bound) (simp add: publish_loop [OF en valid])
qed

text \<open>Unfolding facts for the concrete publishers.\<close>

lemmas ex_pub_defs =
  exAdapterOk_def exAdapterFail_def exOn_def exOff_def mkPublisher_def baseConfig_def
  maxRetriesOf_def delayOf_def

text \<open>Unfolding facts for the concrete runs.\<close>

lemmas ex_run_defs = publish_def retryLoop.simps messageOrUnknown_def Let_def

text \<open>
  C6 as stated fails when the last error has the empty message: with \<open>maxRetries = 0\<close>
  and an adapter that throws \<open>new Error('')\<close> the reported error is \<open>'Unknown error'\<close>,
  which is not the last error's message.
\<close>

theorem publish_empty_message_counterexample:
  "enabled (pub_config exSilent) \<and> validateConfig exSilent = Inr True \<and>
   maxRetriesOf exSilent = 0 \<and> publishContent exSilent ''hi'' 0 = Inl [] \<and>
   fst (publish exSilent ''hi'') =
     Inr \<lparr>pr_success = False, pr_platform = ''X'', url = None,
           pr_error = Some ''Unknown error'', retries = Some 0\<rparr>"
  by (simp add: exSilent_def exAdapterSilent_def ex_pub_defs ex_run_defs)

theorem publish_retry_witness:
  "fst (publish exFlaky ''hi'') =
     Inr \<lparr>pr_success = True, pr_platform = ''X'', url = Some ''https://example.org/post/2'',
           pr_error = None, retries = Some 2\<rparr> \<and>
   attempts (snd (publish exFlaky ''hi'')) = 3 \<and>
   fst (publish exBare ''hi'') =
     Inr \<lparr>pr_success = True, pr_platform = ''X'', url = Some ''https://example.org/post/2'',
           pr_error = None, retries = Some 2\<rparr> \<and>
   fst (publish exAlwaysFail ''hi'') =
     Inr \<lparr>pr_success = False, pr_platform = ''X'', url = None,
           pr_error = Some ''boom'', retries = Some 3\<rparr> \<and>
   attempts (snd (publish exAlwaysFail ''hi'')) = 4 \<and>
   fst (publish exOnce ''hi'') =
     Inr \<lparr>pr_success = False, pr_platform = ''X'', url = None,
           pr_error = Some ''boom'', retries = Some 1\<rparr> \<and>
   attempts (snd (publish exOnce ''hi'')) = 2 \<and>
   of_nat (attempts (snd (publish exFractional ''hi''))) \<le> (5 / 2 :: rat)"
proof -
  have en: "enabled (pub_config exFlaky)" "enabled (pub_config exAlwaysFail)"
    "enabled (pub_config exOnce)" "enabled (pub_config exFractional)" "enabled (pub_config exBare)"
    and v: "validateConfig exFlaky = Inr True" "validateConfig exAlwaysFail = Inr True"
    "validateConfig exOnce = Inr True" "validateConfig exFractional = Inr True"
    "validateConfig exBare = Inr True"
    by (simp_all add: exFlaky_def exAlwaysFail_def exOnce_def exFractional_def exBare_def
        exAdapterFlaky_def ex_pub_defs)
  have cfg: "maxRetries (pub_config exBare) = None" "maxRetries (pub_config exAlwaysFail) = Some 3"
    "maxRetries (pub_config exOnce) = Some 1" "maxRetries (pub_config exFractional) = Some (3 / 2)"
    "maxRetries (pub_config exFlaky) = Some 3"
    by (simp_all add: exFlaky_def exAlwaysFail_def exOnce_def exFractional_def exBare_def ex_pub_defs)
  have plat: "platform exFlaky = ''X''" "platform exAlwaysFail = ''X''" "platform exOnce = ''X''"
    "platform exBare = ''X''"
    by (simp_all add: exFlaky_def exAlwaysFail_def exOnce_def exBare_def ex_pub_defs)
  note t0 = publish_retry [OF en(5) v(5), where c = "''hi''"]
  note t1 = publish_retry [OF en(1) v(1), where c = "''hi''"]
  note t2 = publish_retry [OF en(2) v(2), where c = "''hi''"]
  note t3 = publish_retry [OF en(3) v(3), where c = "''hi''"]
  note t4 = publish_retry [OF en(4) v(4), where c = "''hi''"]
  from t0 [THEN conjunct1] cfg(1) have m0: "maxRetriesOf exBare = 3" by simp
  from t1 [THEN conjunct2, THEN conjunct1, rule_format, OF cfg(5)]
  have m1: "maxRetriesOf exFlaky = 3" .
  from t2 [THEN conjunct2, THEN conjunct1, rule_format, OF cfg(2)]
  have m2: "maxRetriesOf exAlwaysFail = of_nat 3" by simp
  from t3 [THEN conjunct2, THEN conjunct1, rule_format, OF cfg(3)]
  have m3: "maxRetriesOf exOnce = of_nat 1" by simp
  from t4 [THEN conjunct2, THEN conjunct1, rule_format, OF cfg(4)]
  have m4: "maxRetriesOf exFractional = 3 / 2" .
  have bare: "of_nat 2 \<le> maxRetriesOf exBare \<and> (\<forall>j<2. isl (publishContent exBare ''hi'' j))
      \<and> publishContent exBare ''hi'' 2 = Inr ''https://example.org/post/2''"
    using m0 by (simp add: exBare_def exAdapterFlaky_def)
  have flaky: "of_nat 2 \<le> maxRetriesOf exFlaky \<and> (\<forall>j<2. isl (publishContent exFlaky ''hi'' j))
      \<and> publishContent exFlaky ''hi'' 2 = Inr ''https://example.org/post/2''"
    using m1 by (simp add: exFlaky_def exAdapterFlaky_def mkPublisher_def)
  have fail3: "maxRetriesOf exAlwaysFail = of_nat 3 \<and> (\<forall>j<3. isl (publishContent exAlwaysFail ''hi'' j))
      \<and> publishContent exAlwaysFail ''hi'' 3 = Inl ''boom''"
    using m2 by (simp add: exAlwaysFail_def exAdapterFail_def mkPublisher_def)
  have fail1: "maxRetriesOf exOnce = of_nat 1 \<and> (\<forall>j<1. isl (publishContent exOnce ''hi'' j))
      \<and> publishContent exOnce ''hi'' 1 = Inl ''boom''"
    using m3 by (simp add: exOnce_def exAdapterFail_def mkPublisher_def)
  note z = t0 [THEN conjunct2, THEN conjunct2, THEN conjunct2, THEN conjunct1, rule_format, OF bare]
  note a = t1 [THEN conjunct2, THEN conjunct2, THEN conjunct2, THEN conjunct1, rule_format, OF flaky]
  note b = t2 [THEN conjunct2, THEN conjunct2, THEN conjunct2, THEN conjunct2, rule_format, OF fail3]
  note c = t3 [THEN conjunct2, THEN conjunct2, THEN conjunct2, THEN conjunct2, rule_format, OF fail1]
  from t4 [THEN conjunct2, THEN conjunct2, THEN conjunct1] m4
  have d: "of_nat (attempts (snd (publish exFractional ''hi''))) \<le> (5 / 2 :: rat)" by simp
  from z a b c d plat show ?thesis by simp
qed

text \<open>
  C7 fails on the code for a fractional \<open>maxRetries\<close>, which the schema admits. With
  \<open>maxRetries = 1.5\<close> and an adapter that always fails, the loop runs attempts 0 and 1;
  after attempt 1, its last one, \<open>attempt < maxRetries\<close> still holds and the code waits
  \<open>retryDelay * 2\<close> milliseconds, against its own comment "Don't retry on the last
  attempt".
\<close>

theorem publish_waits_after_last_attempt:
  "enabled (pub_config exFractional) \<and> validateConfig exFractional = Inr True \<and>
   maxRetries (pub_config exFractional) = Some (3 / 2) \<and>
   publish exFractional ''hi'' =
     (Inr \<lparr>pr_success = False, pr_platform = ''X'', url = None,
           pr_error = Some ''boom'', retries = Some (3 / 2)\<rparr>,
      [Attempt 0, Sleep 1000, Attempt 1, Sleep 2000])"
  by (simp add: exFractional_def ex_pub_defs ex_run_defs)

lemma publish_backoff_whole_example:
  "snd (publish exFlaky ''hi'') = [Attempt 0, Sleep 1000, Attempt 1, Sleep 2000, Attempt 2] \<and>
   snd (publish exAlwaysFail ''hi'') =
     [Attempt 0, Sleep 1000, Attempt 1, Sleep 2000, Attempt 2, Sleep 3000, Attempt 3]"
  by (simp add: exFlaky_def exAlwaysFail_def exAdapterFlaky_def ex_pub_defs ex_run_defs)

section \<open>Properties of the publisher manager\<close>

lemma retryLoop_platform: "pr_platform (fst (retryLoop p c maxR attempt lastError)) = platform p"
proof (induction p c maxR attempt lastError rule: retryLoop.induct)
  case (1 p content maxR attempt lastError)
  show ?case
  proof (cases "of_nat attempt \<le> maxR")
    case False
    then show ?thesis by (subst retryLoop.simps) simp
  next
    case le: True
    show ?thesis
    proof (cases "publishContent p content attempt")
      case (Inr u)
      with le show ?thesis by (subst retryLoop.simps) simp
    next
      case (Inl msg)
      with le "1.IH"[OF le Inl refl] show ?thesis
        by (subst retryLoop.simps) (simp add: Let_def)
    qed
  qed
qed

lemma publishOne_platform: "pr_platform (fst (publishOne c p)) = platform p"
  by (auto simp: publishOne_def publish_def retryLoop_platform Let_def split: sum.splits prod.splits if_splits)

lemma publishAll_map: "publishAll pubs c = map (publishOne c) pubs"
  by (simp add: publishAll_def)

lemma loadOne_loads:
  "loadOne nm plat a copt =
     (if loads a copt then [mkPublisher nm plat a (the copt)] else [])"
  by (auto simp: loadOne_def loads_def newPublisher_def mkPublisher_def split: option.splits sum.splits)

lemma loadOne_platform:
  "map platform (loadOne nm plat a copt) = (if loads a copt then [plat] else [])"
  by (simp add: loadOne_loads mkPublisher_def)

lemma loadOne_enabled:
  "p \<in> set (loadOne nm plat a copt) \<Longrightarrow> enabled (pub_config p) \<and> validateConfig p = Inr True"
proof -
  assume "p \<in> set (loadOne nm plat a copt)"
  then have l: "loads a copt" and p: "p = mkPublisher nm plat a (the copt)"
    by (simp_all add: loadOne_loads split: if_splits)
  from l obtain c where c: "copt = Some c" "enabled c" "adapterValidate a = Inr True"
    by (cases copt) (auto simp: loads_def)
  with p show ?thesis
    by (simp add: mkPublisher_def baseConfig_def)
qed

lemma publish_disabled:
  "\<not> enabled (pub_config p) \<Longrightarrow>
     publishOne c p = (\<lparr>pr_success = False, pr_platform = platform p, url = None,
                        pr_error = Some ''Publisher is disabled'', retries = None\<rparr>, [])"
  by (simp add: publishOne_def publish_def)

text \<open>
  C2, as the code has it. \<open>publishAll\<close> always returns a list with exactly one result per
  publisher of the manager, in their order: the result of that publisher's \<open>publish\<close>,
  or, when \<open>publish\<close> rejects, \<open>{success: false}\<close> with the platform and the message of
  the rejection. The manager holds the platforms among X, Reddit and Bluesky that are
  enabled, whose publisher could be constructed and whose \<open>validateConfig\<close> holds: a
  disabled platform is not loaded, has no result and no attempt is made for it.
  \<open>publish\<close> on a disabled publisher returns at once
  \<open>{success: false, error: 'Publisher is disabled'}\<close> without any attempt.
\<close>

theorem publishAll_results:
  "length (publishAll pubs c) = length pubs \<and>
   map fst (publishAll pubs c) =
     map (\<lambda>p. case fst (publish p c) of
                 Inr r \<Rightarrow> r
               | Inl e \<Rightarrow> \<lparr>pr_success = False, pr_platform = platform p, url = None,
                            pr_error = Some e, retries = None\<rparr>) pubs \<and>
   map snd (publishAll pubs c) = map (\<lambda>p. snd (publish p c)) pubs \<and>
   map (pr_platform \<circ> fst) (publishAll pubs c) = map platform pubs \<and>
   (\<forall>p \<in> set (loadPublishers ads cfg). enabled (pub_config p) \<and> validateConfig p = Inr True) \<and>
   map (pr_platform \<circ> fst) (publishAll (loadPublishers ads cfg) c) =
       (if loads (adapterX ads) (pub_x (publishers cfg)) then [''X''] else [])
     @ (if loads (adapterReddit ads) (pub_reddit (publishers cfg)) then [''Reddit''] else [])
     @ (if loads (adapterBluesky ads) (pub_bluesky (publishers cfg)) then [''Bluesky''] else []) \<and>
   (\<not> enabled (pub_config p) \<longrightarrow>
      publish p c = (Inr \<lparr>pr_success = False, pr_platform = platform p, url = None,
                          pr_error = Some ''Publisher is disabled'', retries = None\<rparr>, []))"
proof (intro conjI)
  show "length (publishAll pubs c) = length pubs"
    by (simp add: publishAll_map)
  show "map fst (publishAll pubs c) =
     map (\<lambda>p. case fst (publish p c) of
                 Inr r \<Rightarrow> r
               | Inl e \<Rightarrow> \<lparr>pr_success = False, pr_platform = platform p, url = None,
                            pr_error = Some e, retries = None\<rparr>) pubs"
    by (simp add: publishAll_map publishOne_def split: prod.splits sum.splits)
  show "map snd (publishAll pubs c) = map (\<lambda>p. snd (publish p c)) pubs"
    by (simp add: publishAll_map publishOne_def split: prod.splits sum.splits)
  show plat: "map (pr_platform \<circ> fst) (publishAll pubs c) = map platform pubs" for pubs
    by (simp add: publishAll_map publishOne_platform)
  show "\<forall>p \<in> set (loadPublishers ads cfg). enabled (pub_config p) \<and> validateConfig p = Inr True"
    using loadOne_enabled by (auto simp: loadPublishers_def)
  show "map (pr_platform \<circ> fst) (publishAll (loadPublishers ads cfg) c) =
       (if loads (adapterX ads) (pub_x (publishers cfg)) then [''X''] else [])
     @ (if loads (adapterReddit ads) (pub_reddit (publishers cfg)) then [''Reddit''] else [])
     @ (if loads (adapterBluesky ads) (pub_bluesky (publishers cfg)) then [''Bluesky''] else [])"
    unfolding plat by (simp add: loadPublishers_def loadOne_platform)
  show "\<not> enabled (pub_config p) \<longrightarrow>
      publish p c = (Inr \<lparr>pr_success = False, pr_platform = platform p, url = None,
                          pr_error = Some ''Publisher is disabled'', retries = None\<rparr>, [])"
    by (simp add: publish_def)
qed

text \<open>Unfolding facts for the concrete manager.\<close>

lemmas ex_mgr_defs =
  loadPublishers_def loadOne_def newPublisher_def publishAll_def publishOne_def

text \<open>
  C2 as stated fails: with X disabled, Reddit always failing and Bluesky succeeding,
  \<open>publishAll\<close> returns two results, not three; the disabled platform has none.
\<close>

theorem publishAll_disabled_counterexample:
  "map_option enabled (pub_x (publishers exThree)) = Some False \<and>
   map_option enabled (pub_reddit (publishers exThree)) = Some True \<and>
   map_option enabled (pub_bluesky (publishers exThree)) = Some True \<and>
   map fst (publishAll (loadPublishers exThreeAdapters exThree) ''hi'') =
     [\<lparr>pr_success = False, pr_platform = ''Reddit'', url = None,
       pr_error = Some ''boom'', retries = Some 1\<rparr>,
      \<lparr>pr_success = True, pr_platform = ''Bluesky'', url = Some ''https://example.org/post/1'',
       pr_error = None, retries = Some 0\<rparr>]"
  by (simp add: exThree_def exThreeAdapters_def ex_mgr_defs ex_pub_defs ex_run_defs)

theorem publishAll_results_witness:
  "map fst (publishAll [exDisabled, exThrowing, exFlaky] ''hi'') =
     [\<lparr>pr_success = False, pr_platform = ''X'', url = None,
       pr_error = Some ''Publisher is disabled'', retries = None\<rparr>,
      \<lparr>pr_success = False, pr_platform = ''Reddit'', url = None,
       pr_error = Some ''keychain locked'', retries = None\<rparr>,
      \<lparr>pr_success = True, pr_platform = ''X'', url = Some ''https://example.org/post/2'',
       pr_error = None, retries = Some 2\<rparr>] \<and>
   map snd (publishAll [exDisabled, exThrowing, exFlaky] ''hi'') =
     [[], [], [Attempt 0, Sleep 1000, Attempt 1, Sleep 2000, Attempt 2]] \<and>
   map (pr_platform \<circ> fst) (publishAll (loadPublishers exThreeAdapters exThree) ''hi'')
     = [''Reddit'', ''Bluesky''] \<and>
   publish exDisabled ''hi'' =
     (Inr \<lparr>pr_success = False, pr_platform = ''X'', url = None,
           pr_error = Some ''Publisher is disabled'', retries = None\<rparr>, [])"
proof -
  have l: "\<not> loads (adapterX exThreeAdapters) (pub_x (publishers exThree))"
    "loads (adapterReddit exThreeAdapters) (pub_reddit (publishers exThree))"
    "loads (adapterBluesky exThreeAdapters) (pub_bluesky (publishers exThree))"
    by (simp_all add: exThree_def exThreeAdapters_def loads_def ex_pub_defs)
  have d: "\<not> enabled (pub_config exDisabled)" "platform exDisabled = ''X''"
    by (simp_all add: exDisabled_def ex_pub_defs)
  have runs: "publish exThrowing ''hi'' = (Inl ''keychain locked'', [])"
    "publish exFlaky ''hi'' =
       (Inr \<lparr>pr_success = True, pr_platform = ''X'', url = Some ''https://example.org/post/2'',
             pr_error = None, retries = Some 2\<rparr>,
        [Attempt 0, Sleep 1000, Attempt 1, Sleep 2000, Attempt 2])"
    "platform exThrowing = ''Reddit''"
    by (simp_all add: exThrowing_def exAdapterThrowing_def exFlaky_def exAdapterFlaky_def
        ex_pub_defs ex_run_defs)
  note all = publishAll_results [where pubs = "[exDisabled, exThrowing, exFlaky]" and c = "''hi''"
      and ads = exThreeAdapters and cfg = exThree and p = exDisabled]
  note dis = all [THEN conjunct2, THEN conjunct2, THEN conjunct2, THEN conjunct2, THEN conjunct2,
      THEN conjunct2, rule_format, OF d(1)]
  from all [THEN conjunct2, THEN conjunct1] dis runs d
  have a: "map fst (publishAll [exDisabled, exThrowing, exFlaky] ''hi'') =
     [\<lparr>pr_success = False, pr_platform = ''X'', url = None,
       pr_error = Some ''Publisher is disabled'', retries = None\<rparr>,
      \<lparr>pr_success = False, pr_platform = ''Reddit'', url = None,
       pr_error = Some ''keychain locked'', retries = None\<rparr>,
      \<lparr>pr_success = True, pr_platform = ''X'', url = Some ''https://example.org/post/2'',
       pr_error = None, retries = Some 2\<rparr>]"
    by simp
  from all [THEN conjunct2, THEN conjunct2, THEN conjunct1] dis runs
  have b: "map snd (publishAll [exDisabled, exThrowing, exFlaky] ''hi'') =
     [[], [], [Attempt 0, Sleep 1000, Attempt 1, Sleep 2000, Attempt 2]]"
    by simp
  from all [THEN conjunct2, THEN conjunct2, THEN conjunct2, THEN conjunct2, THEN conjunct2,
      THEN conjunct1] l
  have c: "map (pr_platform \<circ> fst) (publishAll (loadPublishers exThreeAdapters exThree) ''hi'')
     = [''Reddit'', ''Bluesky'']"
    by simp
  from a b c dis d show ?thesis by simp
qed

section \<open>Properties of the job runner\<close>

lemma running_keeps_known:
  "(jobs (fst (updateJobStatus q i running res err now)) i \<noteq> None) = (jobs q i \<noteq> None)"
  by (auto simp: updateJobStatus_def Let_def split: option.splits)


lemma complete_success [simp]: "success (snd (complete env q job res)) = success res"
  and complete_commits [simp]: "commits (snd (complete env q job res)) = commits res"
  and complete_summary [simp]: "summary (snd (complete env q job res)) = summary res"
  and complete_published [simp]: "published (snd (complete env q job res)) = published res"
  and complete_platforms [simp]: "platforms (snd (complete env q job res)) = platforms res"
  and complete_error [simp]: "error (snd (complete env q job res)) = error res"
  by (auto simp: complete_def updateJobStatus_def Let_def split: option.splits)

lemma complete_status:
  "jobs q (job_id job) \<noteq> None \<Longrightarrow> statusOf (fst (complete env q job res)) (job_id job) = Some completed"
  by (auto simp: complete_def Let_def updateJobStatus_status)

lemma complete_status_running:
  "jobs q (job_id job) \<noteq> None \<Longrightarrow>
   statusOf (fst (complete env (fst (updateJobStatus q (job_id job) running None None now)) job res))
     (job_id job) = Some completed"
  using running_keeps_known [of q "job_id job" None None now] by (intro complete_status) simp

lemma tryBlock_zero:
  assumes "loadConfig env cp = Some cfg" "\<not> aborted env job 0"
    "fetchCommits env cfg (getSinceForJobType (job_type job) (since (config job))) = Returns []"
  shows "tryBlock env q job cp =
    ((if aborted env job 1 then Throws ''Job was cancelled''
      else Returns (complete env q job emptyResult)),
     [LoadConfig cp, FetchCommits (getSinceForJobType (job_type job) (since (config job)))])"
  using assms by (simp add: tryBlock_def Let_def)

lemma cancelled_text: "includesText ''Job was cancelled'' ''cancelled''"
  by simp

lemma cancelled_status_running:
  "jobs q (job_id job) \<noteq> None \<Longrightarrow>
   statusOf (fst (updateJobStatus (fst (updateJobStatus q (job_id job) running None None now))
                    (job_id job) cancelled res err now')) (job_id job) = Some cancelled"
proof -
  assume "jobs q (job_id job) \<noteq> None"
  then obtain j where "jobs (fst (updateJobStatus q (job_id job) running None None now)) (job_id job) = Some j"
    using running_keeps_known [of q "job_id job" None None now] by auto
  then show ?thesis by (rule updateJobStatus_status)
qed

text \<open>
  C8, as the code has it. Take a run whose fetch returns no commits (the configuration
  loads and no cancellation is seen before the fetch). The only collaborator calls are
  the load and the fetch: no generation and no publishing. Unless a cancellation is seen
  at the check after the fetch, \<open>executeJob\<close> returns
  \<open>{success: true, commits: 0, published: 0, platforms: []}\<close> and the job, when the queue
  knows it, is \<open>completed\<close>. When a cancellation is seen at that check, the result is the
  failure result with \<open>Job was cancelled\<close> and the job is \<open>cancelled\<close>. The job is never
  \<open>failed\<close>.
\<close>

theorem executeJob_zero_commits:
  assumes "loadConfig env cp = Some cfg" and "\<not> aborted env job 0"
    and "fetchCommits env cfg (getSinceForJobType (job_type job) (since (config job))) = Returns []"
  shows "(case executeJob env q job cp of
           (q', res, calls) \<Rightarrow>
             calls = [LoadConfig cp,
                      FetchCommits (getSinceForJobType (job_type job) (since (config job)))] \<and>
             \<not> list_ex isGenerateSummary calls \<and> \<not> list_ex isPublishAll calls \<and>
             (\<not> aborted env job 1 \<longrightarrow>
                (\<exists>r. res = Some r \<and>
                   success r \<and> commits r = 0 \<and> published r = 0 \<and> platforms r = [] \<and>
                   summary r = None \<and> error r = None) \<and>
                (jobs q (job_id job) \<noteq> None \<longrightarrow> statusOf q' (job_id job) = Some completed)) \<and>
             (aborted env job 1 \<longrightarrow>
                res = Some \<lparr>success = False, commits = 0, summary = None, published = 0,
                            platforms = [], error = Some ''Job was cancelled'', duration = None\<rparr> \<and>
                (jobs q (job_id job) \<noteq> None \<longrightarrow> statusOf q' (job_id job) = Some cancelled)))"
proof (cases "aborted env job 1")
  case False
  let ?q1 = "fst (updateJobStatus q (job_id job) running None None (clock env 0))"
  let ?calls = "[LoadConfig cp, FetchCommits (getSinceForJobType (job_type job) (since (config job)))]"
  have ex: "executeJob env q job cp =
      (fst (complete env ?q1 job emptyResult), Some (snd (complete env ?q1 job emptyResult)), ?calls)"
    using False by (simp add: executeJob_def Let_def tryBlock_zero [OF assms])
  have st: "jobs q (job_id job) \<noteq> None \<longrightarrow>
      statusOf (fst (complete env ?q1 job emptyResult)) (job_id job) = Some completed"
    using complete_status_running by blast
  from st False show ?thesis
    unfolding ex by (simp add: emptyResult_def)
next
  case True
  let ?q1 = "fst (updateJobStatus q (job_id job) running None None (clock env 0))"
  let ?q2 = "fst (updateJobStatus ?q1 (job_id job) cancelled None (Some ''Job was cancelled'') (clock env 1))"
  let ?calls = "[LoadConfig cp, FetchCommits (getSinceForJobType (job_type job) (since (config job)))]"
  have ex: "executeJob env q job cp = (?q2, Some (failureResult ''Job was cancelled''), ?calls)"
    using True cancelled_text by (simp add: executeJob_def Let_def tryBlock_zero [OF assms])
  have st: "jobs q (job_id job) \<noteq> None \<longrightarrow> statusOf ?q2 (job_id job) = Some cancelled"
    using cancelled_status_running by blast
  from st True show ?thesis
    unfolding ex by (simp add: failureResult_def; blast)
qed

lemma tryBlock_dry_calls:
  "dryRun (config job) = Some True \<Longrightarrow> \<not> list_ex isPublishAll (snd (tryBlock env q job cp))"
  by (auto simp: tryBlock_def Let_def split: option.splits Outcome.splits)

lemma tryBlock_dry_result:
  "dryRun (config job) = Some True \<Longrightarrow> fst (tryBlock env q job cp) = Returns fin
     \<Longrightarrow> published (snd fin) = 0 \<and> platforms (snd fin) = []"
  by (auto simp: tryBlock_def Let_def emptyResult_def split: option.splits Outcome.splits if_splits)

text \<open>
  C9. For a job with \<open>config.dryRun\<close> true, \<open>executeJob\<close> never calls the publisher
  fan-out and the result has \<open>published: 0\<close> and \<open>platforms: []\<close>, whatever the
  collaborators and the configured publishers do; when commits are present and the
  generation succeeds, the result is a success with the commit count and the summary,
  after exactly the load, fetch and generation calls.
\<close>

theorem executeJob_dry_run:
  assumes dry: "dryRun (config job) = Some True"
  shows "(case executeJob env q job cp of
           (q', res, calls) \<Rightarrow>
             \<not> list_ex isPublishAll calls \<and>
             (\<forall>r. res = Some r \<longrightarrow> published r = 0 \<and> platforms r = []) \<and>
             (\<forall>cfg cs text.
                loadConfig env cp = Some cfg \<and> \<not> aborted env job 0 \<and>
                fetchCommits env cfg (getSinceForJobType (job_type job) (since (config job)))
                  = Returns cs \<and>
                \<not> aborted env job 1 \<and> cs \<noteq> [] \<and>
                generateSummary env cfg cs = Returns text \<and> \<not> aborted env job 2
                \<longrightarrow> (\<exists>r. res = Some r \<and> success r \<and> commits r = length cs \<and>
                          summary r = Some text \<and> published r = 0 \<and> platforms r = []) \<and>
                    calls = [LoadConfig cp,
                             FetchCommits (getSinceForJobType (job_type job) (since (config job))),
                             GenerateSummary cs]))"
proof -
  let ?q1 = "fst (updateJobStatus q (job_id job) running None None (clock env 0))"
  let ?since = "getSinceForJobType (job_type job) (since (config job))"
  obtain out calls where tb: "tryBlock env ?q1 job cp = (out, calls)"
    by (cases "tryBlock env ?q1 job cp")
  from tryBlock_dry_calls [OF dry, of env ?q1 cp] tb
  have nocall: "\<not> list_ex isPublishAll calls" by simp
  show ?thesis
  proof (cases out)
    case (Throws msg)
    have nopath: "\<forall>cfg cs text. \<not> (loadConfig env cp = Some cfg \<and> \<not> aborted env job 0 \<and>
                fetchCommits env cfg ?since = Returns cs \<and>
                \<not> aborted env job 1 \<and> cs \<noteq> [] \<and>
                generateSummary env cfg cs = Returns text \<and> \<not> aborted env job 2)"
      using tb Throws by (auto simp: tryBlock_def Let_def split: if_splits)
    from tb Throws obtain q2 where ex: "executeJob env q job cp = (q2, Some (failureResult msg), calls)"
      by (simp add: executeJob_def Let_def)
    from nocall nopath show ?thesis
      unfolding ex by (simp add: failureResult_def; blast)
  next
    case Exits
    have nopath: "\<forall>cfg cs text. \<not> (loadConfig env cp = Some cfg \<and> \<not> aborted env job 0 \<and>
                fetchCommits env cfg ?since = Returns cs \<and>
                \<not> aborted env job 1 \<and> cs \<noteq> [] \<and>
                generateSummary env cfg cs = Returns text \<and> \<not> aborted env job 2)"
      using tb Exits by (auto simp: tryBlock_def Let_def split: if_splits)
    from tb Exits have ex: "executeJob env q job cp = (?q1, None, calls)"
      by (simp add: executeJob_def Let_def)
    from nocall nopath show ?thesis
      unfolding ex by simp
  next
    case (Returns fin)
    with tb tryBlock_dry_result [OF dry, of env ?q1 cp fin]
    have z: "published (snd fin) = 0 \<and> platforms (snd fin) = []" by simp
    from Returns tb have ex: "executeJob env q job cp = (fst fin, Some (snd fin), calls)"
      by (simp add: executeJob_def Let_def)
    have "\<forall>cfg cs text.
                loadConfig env cp = Some cfg \<and> \<not> aborted env job 0 \<and>
                fetchCommits env cfg ?since = Returns cs \<and>
                \<not> aborted env job 1 \<and> cs \<noteq> [] \<and>
                generateSummary env cfg cs = Returns text \<and> \<not> aborted env job 2
                \<longrightarrow> success (snd fin) \<and> commits (snd fin) = length cs \<and> summary (snd fin) = Some text \<and>
                    calls = [LoadConfig cp, FetchCommits ?since, GenerateSummary cs]"
      using tb Returns dry by (auto simp: tryBlock_def Let_def)
    with z nocall show ?thesis unfolding ex by simp
  qed
qed






text \<open>Unfolding facts for the concrete runs of the runner.\<close>

lemmas ex_env_defs =
  exEnv_def exJob_def exXOnly_def exCommits_def aborted_def getSinceForJobType_def

lemmas ex_exec_defs =
  executeJob_def tryBlock_def complete_def emptyResult_def failureResult_def

theorem executeJob_zero_commits_witness:
  "(case executeJob (exEnv exAdapterOk []) exQueue exJob None of
      (q', res, calls) \<Rightarrow>
        (\<exists>r. res = Some r \<and> success r \<and> commits r = 0 \<and> published r = 0 \<and> platforms r = []) \<and>
        statusOf q' ''j1'' = Some completed \<and>
        calls = [LoadConfig None, FetchCommits None]) \<and>
   (case executeJob exEnvCancelledEmpty exQueue exJob None of
      (q', res, calls) \<Rightarrow>
        res = Some \<lparr>success = False, commits = 0, summary = None, published = 0, platforms = [],
                    error = Some ''Job was cancelled'', duration = None\<rparr> \<and>
        statusOf q' ''j1'' = Some cancelled)"
proof -
  have h: "loadConfig (exEnv exAdapterOk []) None = Some exXOnly"
    "\<not> aborted (exEnv exAdapterOk []) exJob 0"
    "fetchCommits (exEnv exAdapterOk []) exXOnly
       (getSinceForJobType (job_type exJob) (since (config exJob))) = Returns []"
    and n: "\<not> aborted (exEnv exAdapterOk []) exJob 1"
    by (simp_all add: ex_env_defs ex_queue_defs)
  have g: "loadConfig exEnvCancelledEmpty None = Some exXOnly"
    "\<not> aborted exEnvCancelledEmpty exJob 0"
    "fetchCommits exEnvCancelledEmpty exXOnly
       (getSinceForJobType (job_type exJob) (since (config exJob))) = Returns []"
    and y: "aborted exEnvCancelledEmpty exJob 1"
    by (simp_all add: exEnvCancelledEmpty_def ex_env_defs ex_queue_defs)
  have k: "jobs exQueue (job_id exJob) \<noteq> None" and j: "job_id exJob = ''j1''"
    and s: "getSinceForJobType (job_type exJob) (since (config exJob)) = None"
    by (simp_all add: ex_env_defs ex_queue_defs)
  obtain q1 r1 calls1 where ex1: "executeJob (exEnv exAdapterOk []) exQueue exJob None = (q1, r1, calls1)"
    by (cases "executeJob (exEnv exAdapterOk []) exQueue exJob None")
  obtain q2 r2 calls2 where ex2: "executeJob exEnvCancelledEmpty exQueue exJob None = (q2, r2, calls2)"
    by (cases "executeJob exEnvCancelledEmpty exQueue exJob None")
  note all1 = executeJob_zero_commits [OF h, where q = exQueue, unfolded ex1 prod.case]
  note c1 = all1 [THEN conjunct1]
  note ok = all1 [THEN conjunct2, THEN conjunct2, THEN conjunct2, THEN conjunct1, rule_format, OF n]
  from ok obtain r where a: "r1 = Some r" "success r" "commits r = 0" "published r = 0" "platforms r = []"
    by (elim conjE exE)
  from ok have a': "jobs exQueue (job_id exJob) \<noteq> None \<longrightarrow> statusOf q1 (job_id exJob) = Some completed"
    by (rule conjunct2)
  from a' k have "statusOf q1 (job_id exJob) = Some completed" by (rule mp)
  with j have a2: "statusOf q1 ''j1'' = Some completed" by simp
  from c1 s have a3: "calls1 = [LoadConfig None, FetchCommits None]" by simp
  note all2 = executeJob_zero_commits [OF g, where q = exQueue, unfolded ex2 prod.case]
  note ca = all2 [THEN conjunct2, THEN conjunct2, THEN conjunct2, THEN conjunct2, rule_format, OF y]
  from ca have b: "r2 = Some \<lparr>success = False, commits = 0, summary = None, published = 0,
                    platforms = [], error = Some ''Job was cancelled'', duration = None\<rparr>"
    and b': "jobs exQueue (job_id exJob) \<noteq> None \<longrightarrow> statusOf q2 (job_id exJob) = Some cancelled"
    by simp_all
  from b' k have "statusOf q2 (job_id exJob) = Some cancelled" by (rule mp)
  with j have b2: "statusOf q2 ''j1'' = Some cancelled" by simp
  from a a2 a3 b b2 show ?thesis unfolding ex1 ex2 by simp
qed

text \<open>
  C8 as stated fails for a job that is cancelled while the commits are fetched: the fetch
  returns no commits, but the check after the fetch sees the cancellation and the result
  is a failure result, not \<open>success: true\<close>; the job is \<open>cancelled\<close>, not \<open>completed\<close>.
\<close>

theorem executeJob_zero_commits_cancelled_counterexample:
  "loadConfig exEnvCancelledEmpty None = Some exXOnly \<and>
   fetchCommits exEnvCancelledEmpty exXOnly None = Returns [] \<and>
   fst (snd (executeJob exEnvCancelledEmpty exQueue exJob None)) =
     Some \<lparr>success = False, commits = 0, summary = None, published = 0, platforms = [],
           error = Some ''Job was cancelled'', duration = None\<rparr> \<and>
   statusOf (fst (executeJob exEnvCancelledEmpty exQueue exJob None)) ''j1'' = Some cancelled"
  by (simp add: exEnvCancelledEmpty_def ex_env_defs ex_exec_defs ex_queue_defs)

theorem executeJob_dry_run_witness:
  "(case executeJob (exEnv exAdapterOk exCommits) exDryQueue exDryJob None of
      (q', res, calls) \<Rightarrow>
        \<not> list_ex isPublishAll calls \<and>
        (\<exists>r. res = Some r \<and> success r \<and> commits r = 3 \<and> published r = 0 \<and> platforms r = [])) \<and>
   loadPublishers (adapters (exEnv exAdapterOk exCommits)) exXOnly \<noteq> []"
proof -
  have dry: "dryRun (config exDryJob) = Some True"
    by (simp add: exDryJob_def exDryConfig_def ex_env_defs ex_queue_defs)
  have h: "loadConfig (exEnv exAdapterOk exCommits) None = Some exXOnly \<and>
    \<not> aborted (exEnv exAdapterOk exCommits) exDryJob 0 \<and>
    fetchCommits (exEnv exAdapterOk exCommits) exXOnly
       (getSinceForJobType (job_type exDryJob) (since (config exDryJob))) = Returns exCommits \<and>
    \<not> aborted (exEnv exAdapterOk exCommits) exDryJob 1 \<and> exCommits \<noteq> [] \<and>
    generateSummary (exEnv exAdapterOk exCommits) exXOnly exCommits = Returns ''Shipped the job queue'' \<and>
    \<not> aborted (exEnv exAdapterOk exCommits) exDryJob 2"
    by (simp add: exDryJob_def exDryConfig_def ex_env_defs ex_queue_defs)
  have l: "length exCommits = 3" "loadPublishers (adapters (exEnv exAdapterOk exCommits)) exXOnly \<noteq> []"
    by (simp_all add: ex_env_defs ex_mgr_defs ex_pub_defs)
  obtain q' r calls where
    ex: "executeJob (exEnv exAdapterOk exCommits) exDryQueue exDryJob None = (q', r, calls)"
    by (cases "executeJob (exEnv exAdapterOk exCommits) exDryQueue exDryJob None")
  note all = executeJob_dry_run [OF dry, where env = "exEnv exAdapterOk exCommits"
      and q = exDryQueue and cp = None, unfolded ex prod.case]
  note t1 = all [THEN conjunct1]
  note t3 = all [THEN conjunct2, THEN conjunct2, rule_format, OF h, THEN conjunct1]
  from t3 obtain r' where "r = Some r'" "success r'" "commits r' = length exCommits"
    "published r' = 0" "platforms r' = []"
    by (elim conjE exE)
  with t1 l show ?thesis unfolding ex by simp
qed



text \<open>
  C1 fails on the code: \<open>executeJob\<close> lists the platform of every result of the fan-out,
  also of the failed ones (its comment takes \<open>publishAll\<close> to return only successes).
  With X enabled and its publisher failing on every attempt, no publish succeeds, yet the
  result has \<open>published: 1\<close> and \<open>platforms: ["X"]\<close>.
\<close>

theorem executeJob_counts_failed_publish:
  "map fst (publishAll (loadPublishers (adapters (exEnv exAdapterFail exCommits)) exXOnly)
              ''Shipped the job queue'') =
     [\<lparr>pr_success = False, pr_platform = ''X'', url = None, pr_error = Some ''boom'',
       retries = Some 0\<rparr>] \<and>
   succeededPlatforms (publishAll (loadPublishers (adapters (exEnv exAdapterFail exCommits)) exXOnly)
              ''Shipped the job queue'') = [] \<and>
   fst (snd (executeJob (exEnv exAdapterFail exCommits) exQueue exJob None)) =
     Some \<lparr>success = True, commits = 3, summary = Some ''Shipped the job queue'', published = 1,
           platforms = [''X''], error = None, duration = Some 1\<rparr>"
  by (simp add: succeededPlatforms_def ex_env_defs ex_exec_defs ex_queue_defs ex_mgr_defs ex_pub_defs ex_run_defs)

text \<open>The end-to-end scenario of the specification: X enabled and succeeding, Reddit disabled.\<close>

lemma executeJob_end_to_end:
  "fst (snd (executeJob (exEnv exAdapterOk exCommits) exQueue exJob None)) =
     Some \<lparr>success = True, commits = 3, summary = Some ''Shipped the job queue'', published = 1,
           platforms = [''X''], error = None, duration = Some 1\<rparr> \<and>
   statusOf (fst (executeJob (exEnv exAdapterOk exCommits) exQueue exJob None)) ''j1'' = Some completed"
  by (simp add: ex_env_defs ex_exec_defs ex_queue_defs ex_mgr_defs ex_pub_defs ex_run_defs)

section \<open>Properties of the AI provider chain\<close>

lemma tryFallbacks_success:
  "k < length fs \<Longrightarrow> (\<forall>j<k. isl (ai_generateDevlog (fs ! j) ctx)) \<Longrightarrow>
   ai_generateDevlog (fs ! k) ctx = Inr r \<Longrightarrow>
   tryFallbacks fs ctx i = (Some r, map Fallback [i..<i + k + 1])"
proof (induction fs arbitrary: i k)
  case Nil
  then show ?case by simp
next
  case (Cons f fs)
  show ?case
  proof (cases k)
    case 0
    with Cons.prems show ?thesis by simp
  next
    case (Suc k')
    with Cons.prems have "isl (ai_generateDevlog f ctx)" by auto
    then obtain e where e: "ai_generateDevlog f ctx = Inl e"
      by (cases "ai_generateDevlog f ctx") auto
    from Suc Cons.prems have "k' < length fs" "\<forall>j<k'. isl (ai_generateDevlog (fs ! j) ctx)"
      "ai_generateDevlog (fs ! k') ctx = Inr r" by auto
    from Cons.IH [OF this, of "i + 1"]
    have rest: "tryFallbacks fs ctx (i + 1) = (Some r, map Fallback [i + 1..<i + 1 + k' + 1])" .
    have idx: "[i..<i + k + 1] = i # [i + 1..<i + 1 + k' + 1]"
      using upt_conv_Cons [of i "i + k + 1"] Suc by simp
    from e have "tryFallbacks (f # fs) ctx i =
        (fst (tryFallbacks fs ctx (i + 1)), Fallback i # snd (tryFallbacks fs ctx (i + 1)))"
      by (simp add: Let_def)
    then show ?thesis unfolding rest idx by simp
  qed
qed

lemma tryFallbacks_fail:
  "\<forall>f \<in> set fs. isl (ai_generateDevlog f ctx) \<Longrightarrow>
   tryFallbacks fs ctx i = (None, map Fallback [i..<i + length fs])"
proof (induction fs arbitrary: i)
  case Nil
  then show ?case by simp
next
  case (Cons f fs)
  then obtain e where e: "ai_generateDevlog f ctx = Inl e"
    by (cases "ai_generateDevlog f ctx") auto
  from Cons have rest: "tryFallbacks fs ctx (i + 1) = (None, map Fallback [i + 1..<i + 1 + length fs])"
    by simp
  have idx: "[i..<i + length (f # fs)] = i # [i + 1..<i + 1 + length fs]"
    using upt_conv_Cons [of i "i + length (f # fs)"] by simp
  from e have "tryFallbacks (f # fs) ctx i =
      (fst (tryFallbacks fs ctx (i + 1)), Fallback i # snd (tryFallbacks fs ctx (i + 1)))"
    by (simp add: Let_def)
  then show ?case unfolding rest idx by simp
qed

lemma tryFallbacks_no_primary: "Primary \<notin> set (snd (tryFallbacks fs ctx i))"
  by (induction fs arbitrary: i) (auto simp: Let_def split: sum.splits)

lemma count_primary: "Primary \<notin> set xs \<Longrightarrow> count_list (Primary # xs) Primary = 1"
  by (simp add: count_list_0_iff)

lemma generateDevlog_calls:
  "\<exists>rest. snd (generateDevlog l ctx) = Primary # rest \<and> Primary \<notin> set rest"
proof (cases "ai_generateDevlog (primaryProvider l) ctx")
  case (Inr r)
  then show ?thesis by (simp add: generateDevlog_def)
next
  case (Inl e)
  obtain out calls where t: "tryFallbacks (fallbackProviders l) ctx 0 = (out, calls)"
    by (cases "tryFallbacks (fallbackProviders l) ctx 0")
  with tryFallbacks_no_primary [of "fallbackProviders l" ctx 0] have "Primary \<notin> set calls" by simp
  with Inl t show ?thesis by (cases out) (simp_all add: generateDevlog_def)
qed

lemma fallbacks_foldl:
  "fallbackProviders (foldl addFallback l ps) = fallbackProviders l @ filter isConfigured ps"
  by (induction ps arbitrary: l) (simp_all add: addFallback_def)

lemma primary_foldl: "primaryProvider (foldl addFallback l ps) = primaryProvider l"
  by (induction ps arbitrary: l) (simp_all add: addFallback_def)

lemma includesText_self: "includesText s s"
  by (cases s) simp_all

lemma includesText_append: "includesText (pre @ s) s"
  by (induction pre) (simp_all add: includesText_self)

text \<open>
  C5. \<open>generateDevlog\<close> of the provider chain calls the primary provider first and exactly
  once. When it succeeds its response is returned and no fallback is called. When it
  fails, the registered fallbacks are called in registration order up to the first that
  succeeds, whose response is returned. When the primary and all fallbacks fail, one
  error is raised whose message is \<open>All AI providers failed. Last error: \<close> followed by the
  primary's error, so it includes the primary's error. \<open>addFallback\<close> registers a
  provider only when it reports itself configured, so the fallbacks of a loader are the
  configured ones among those offered, in the order offered.
\<close>

theorem generateDevlog_chain:
  "(\<forall>r. ai_generateDevlog (primaryProvider l) ctx = Inr r
      \<longrightarrow> generateDevlog l ctx = (Inr r, [Primary])) \<and>
   (\<forall>e k r. ai_generateDevlog (primaryProvider l) ctx = Inl e \<and> k < length (fallbackProviders l) \<and>
        (\<forall>j<k. isl (ai_generateDevlog (fallbackProviders l ! j) ctx)) \<and>
        ai_generateDevlog (fallbackProviders l ! k) ctx = Inr r
      \<longrightarrow> generateDevlog l ctx = (Inr r, Primary # map Fallback [0..<k + 1])) \<and>
   (\<forall>e. ai_generateDevlog (primaryProvider l) ctx = Inl e \<and>
        (\<forall>f \<in> set (fallbackProviders l). isl (ai_generateDevlog f ctx))
      \<longrightarrow> generateDevlog l ctx =
            (Inl (''All AI providers failed. Last error: '' @ e),
             Primary # map Fallback [0..<length (fallbackProviders l)]) \<and>
          includesText (''All AI providers failed. Last error: '' @ e) e) \<and>
   hd (snd (generateDevlog l ctx)) = Primary \<and>
   count_list (snd (generateDevlog l ctx)) Primary = 1 \<and>
   fallbackProviders (addFallback l p) =
     (if isConfigured p then fallbackProviders l @ [p] else fallbackProviders l) \<and>
   primaryProvider (addFallback l p) = primaryProvider l \<and>
   fallbackProviders (foldl addFallback (newLoader primary) ps) = filter isConfigured ps"
proof (intro conjI allI impI)
  fix r assume "ai_generateDevlog (primaryProvider l) ctx = Inr r"
  then show "generateDevlog l ctx = (Inr r, [Primary])"
    by (simp add: generateDevlog_def)
next
  fix e k r
  assume h: "ai_generateDevlog (primaryProvider l) ctx = Inl e \<and> k < length (fallbackProviders l) \<and>
        (\<forall>j<k. isl (ai_generateDevlog (fallbackProviders l ! j) ctx)) \<and>
        ai_generateDevlog (fallbackProviders l ! k) ctx = Inr r"
  then have "tryFallbacks (fallbackProviders l) ctx 0 = (Some r, map Fallback [0..<0 + k + 1])"
    by (intro tryFallbacks_success) auto
  with h show "generateDevlog l ctx = (Inr r, Primary # map Fallback [0..<k + 1])"
    by (simp add: generateDevlog_def)
next
  fix e
  assume h: "ai_generateDevlog (primaryProvider l) ctx = Inl e \<and>
        (\<forall>f \<in> set (fallbackProviders l). isl (ai_generateDevlog f ctx))"
  then have "tryFallbacks (fallbackProviders l) ctx 0 =
      (None, map Fallback [0..<0 + length (fallbackProviders l)])"
    by (intro tryFallbacks_fail) auto
  with h show "generateDevlog l ctx =
            (Inl (''All AI providers failed. Last error: '' @ e),
             Primary # map Fallback [0..<length (fallbackProviders l)])"
    by (simp add: generateDevlog_def)
  show "includesText (''All AI providers failed. Last error: '' @ e) e"
    by (rule includesText_append)
next
  from generateDevlog_calls [of l ctx] obtain rest where
    rest: "snd (generateDevlog l ctx) = Primary # rest" "Primary \<notin> set rest" by blast
  from rest show "hd (snd (generateDevlog l ctx)) = Primary" by simp
  from rest show "count_list (snd (generateDevlog l ctx)) Primary = 1"
    by (simp add: count_primary)
next
  show "fallbackProviders (addFallback l p) =
     (if isConfigured p then fallbackProviders l @ [p] else fallbackProviders l)"
    by (simp add: addFallback_def)
  show "primaryProvider (addFallback l p) = primaryProvider l"
    by (simp add: addFallback_def)
  show "fallbackProviders (foldl addFallback (newLoader primary) ps) = filter isConfigured ps"
    by (simp add: fallbacks_foldl newLoader_def)
qed

text \<open>Unfolding facts for the concrete provider chains.\<close>

lemmas ex_ai_defs = exLoader_def exLoaderAllFail_def exPrimary_def exFallbackA_def exFallbackU_def
  exFallbackB_def newLoader_def addFallback_def

theorem generateDevlog_chain_witness:
  "generateDevlog exLoader exContext = (Inr (exResponse ''Llama''), [Primary, Fallback 0, Fallback 1]) \<and>
   map ai_name (fallbackProviders exLoader) = [''Claude'', ''Llama''] \<and>
   generateDevlog exLoaderAllFail exContext =
     (Inl ''All AI providers failed. Last error: quota exceeded'', [Primary, Fallback 0])"
proof -
  have fb: "fallbackProviders exLoader = [exFallbackA, exFallbackB]"
    "fallbackProviders exLoaderAllFail = [exFallbackA]"
    by (simp_all add: ex_ai_defs)
  have h1: "ai_generateDevlog (primaryProvider exLoader) exContext = Inl ''quota exceeded'' \<and>
      1 < length (fallbackProviders exLoader) \<and>
      (\<forall>j<1. isl (ai_generateDevlog (fallbackProviders exLoader ! j) exContext)) \<and>
      ai_generateDevlog (fallbackProviders exLoader ! 1) exContext = Inr (exResponse ''Llama'')"
    by (simp add: ex_ai_defs)
  have h2: "ai_generateDevlog (primaryProvider exLoaderAllFail) exContext = Inl ''quota exceeded'' \<and>
      (\<forall>f \<in> set (fallbackProviders exLoaderAllFail). isl (ai_generateDevlog f exContext))"
    by (simp add: ex_ai_defs)
  note a = generateDevlog_chain [where l = exLoader and ctx = exContext,
      THEN conjunct2, THEN conjunct1, rule_format, OF h1]
  note b = generateDevlog_chain [where l = exLoaderAllFail and ctx = exContext,
      THEN conjunct2, THEN conjunct2, THEN conjunct1, rule_format, OF h2, THEN conjunct1]
  have n: "map ai_name [exFallbackA, exFallbackB] = [''Claude'', ''Llama'']"
    by (simp add: ex_ai_defs)
  have u: "[0..<1 + 1] = [0, 1::nat]" "[0..<length [exFallbackA]] = [0::nat]"
    by (simp_all add: upt_rec)
  from a b n u show ?thesis by (simp add: fb)
qed

end
